theory Spec2Isabelle
  imports Complex_Main
begin

section \<open>JavaScript values used by the background material\<close>

text \<open>
  A JavaScript number is a NaN, an infinity or a finite value. Only comparisons,
  \<^verbatim>\<open>isNaN\<close>, \<^verbatim>\<open>Math.min\<close> and \<^verbatim>\<open>Math.max\<close> are modelled, all of which are exact
  on doubles; the two zeros are identified (they are equal under \<^verbatim>\<open><\<close> and \<^verbatim>\<open>===\<close>).
\<close>

datatype jsnum = NaN | NegInf | Fin real | PosInf

fun js_lt :: "jsnum \<Rightarrow> jsnum \<Rightarrow> bool" where
  "js_lt NaN _ = False"
| "js_lt _ NaN = False"
| "js_lt NegInf NegInf = False"
| "js_lt NegInf _ = True"
| "js_lt (Fin a) (Fin b) = (a < b)"
| "js_lt (Fin _) PosInf = True"
| "js_lt (Fin _) NegInf = False"
| "js_lt PosInf _ = False"

definition js_gt :: "jsnum \<Rightarrow> jsnum \<Rightarrow> bool" where
  "js_gt a b = js_lt b a"

text \<open>\<^verbatim>\<open>a !== b\<close> on numbers: a NaN differs from everything, itself included.\<close>

definition js_strict_ne :: "jsnum \<Rightarrow> jsnum \<Rightarrow> bool" where
  "js_strict_ne a b = (a = NaN \<or> b = NaN \<or> a \<noteq> b)"

definition isNaN :: "jsnum \<Rightarrow> bool" where
  "isNaN v = (v = NaN)"

definition Math_min :: "jsnum \<Rightarrow> jsnum \<Rightarrow> jsnum" where
  "Math_min a b = (if a = NaN \<or> b = NaN then NaN else if js_lt b a then b else a)"

definition Math_max :: "jsnum \<Rightarrow> jsnum \<Rightarrow> jsnum" where
  "Math_max a b = (if a = NaN \<or> b = NaN then NaN else if js_lt a b then b else a)"

text \<open>
  A reference that may be \<^verbatim>\<open>undefined\<close> (a field declared without initialiser),
  \<^verbatim>\<open>null\<close>, or an object. \<^verbatim>\<open>===\<close> on references is equality of this type; only an
  object is truthy.
\<close>

datatype 'a jsref = Undefined | Null | Ref 'a

fun truthy_ref :: "'a jsref \<Rightarrow> bool" where
  "truthy_ref (Ref _) = True"
| "truthy_ref _ = False"

section \<open>Textures\<close>

text \<open>
  The coordinates modes of \<^verbatim>\<open>Texture\<close> that \<^verbatim>\<open>isReadyForSubMesh\<close> names; any other
  number is \<open>OTHER_MODE\<close> and falls to the \<^verbatim>\<open>default\<close> branch of its switch.
\<close>

datatype coordinates_mode =
    EXPLICIT_MODE | PLANAR_MODE | PROJECTION_MODE | SKYBOX_MODE | SPHERICAL_MODE
  | EQUIRECTANGULAR_MODE | FIXED_EQUIRECTANGULAR_MODE | FIXED_EQUIRECTANGULAR_MIRRORED_MODE
  | CUBIC_MODE | INVCUBIC_MODE | OTHER_MODE nat

record texture =
  tex_name :: string
  isReadyOrNotBlocking :: bool
  hasAlpha :: bool
  gammaSpace :: bool
  isRGBD :: bool
  lodLevelInAlpha :: bool
  isCube :: bool
  invertZ :: bool
  isRenderTarget :: bool
  coordinatesMode :: coordinates_mode
  lodTextureMid :: "string option"
  lodTextureLow :: "string option"
  lodTextureHigh :: "string option"

section \<open>The material\<close>

text \<open>
  The alpha modes of \<^verbatim>\<open>Constants\<close> that the material compares against; any other
  mode is \<open>ALPHA_OTHER\<close>.
\<close>

datatype alpha_mode = ALPHA_PREMULTIPLIED | ALPHA_PREMULTIPLIED_PORTERDUFF | ALPHA_OTHER nat

text \<open>
  The fields of \<^verbatim>\<open>BackgroundMaterial\<close> (with those it reads from its base classes
  and from its uniform buffer). A property expanded by \<^verbatim>\<open>expandToProperty\<close> and its
  backing field \<^verbatim>\<open>_name\<close> are one field here. An image-processing configuration,
  an observer and an effect are identified by a number.
\<close>

record material =
  alpha :: jsnum
  alphaMode :: alpha_mode
  isFrozen :: bool
  pointsCloud :: bool
  fogEnabled :: bool
  useLogarithmicDepth :: bool
  primaryColorShadowLevel :: jsnum
  primaryColorHighlightLevel :: jsnum
  reflectionTexture :: "texture option"
  reflectionBlur :: jsnum
  diffuseTexture :: "texture option"
  shadowLevel :: jsnum
  opacityFresnel :: bool
  reflectionFresnel :: bool
  reflectionFalloffDistance :: jsnum
  reflectionAmount :: jsnum
  reflectionReflectance0 :: jsnum
  reflectionReflectance90 :: jsnum
  useRGBColor :: bool
  enableNoise :: bool
  fovMultiplier_field :: jsnum
  useEquirectangularFOV :: bool
  maxSimultaneousLights :: nat
  shadowOnly :: bool
  imageProcessingConfiguration :: "nat jsref"
  imageProcessingObserver :: "nat option"
  switchToBGR :: bool
  enableGroundProjection :: bool
  reflectionControls :: "jsnum \<times> jsnum \<times> jsnum \<times> (jsnum \<times> jsnum)"
  shadersLoaded :: bool
  useUbo :: bool
  isSync :: bool
  activeEffect :: "nat option"
  needToBindSceneUbo :: bool

text \<open>
  The field initialisers of the class, applied to the object the base constructor returns.
  \<^verbatim>\<open>_imageProcessingConfiguration\<close> has no initialiser. The fourth component of
  \<^verbatim>\<open>_reflectionControls\<close> holds the quotient \<^verbatim>\<open>1 / reflectionFalloffDistance\<close>
  as the pair of its operands; \<^verbatim>\<open>Vector4.Zero()\<close> is \<open>0 / 1\<close>.
\<close>

definition field_initialisers :: "material \<Rightarrow> material" where
  "field_initialisers base = base\<lparr>
     primaryColorShadowLevel := Fin 0,
     primaryColorHighlightLevel := Fin 0,
     reflectionTexture := None,
     reflectionBlur := Fin 0,
     diffuseTexture := None,
     shadowLevel := Fin 0,
     opacityFresnel := True,
     reflectionFresnel := False,
     reflectionFalloffDistance := Fin 0,
     reflectionAmount := Fin 1,
     reflectionReflectance0 := Fin (5 / 100),
     reflectionReflectance90 := Fin (1 / 2),
     useRGBColor := True,
     enableNoise := False,
     fovMultiplier_field := Fin 1,
     useEquirectangularFOV := False,
     maxSimultaneousLights := 4,
     shadowOnly := False,
     imageProcessingConfiguration := Undefined,
     imageProcessingObserver := None,
     switchToBGR := False,
     enableGroundProjection := False,
     reflectionControls := (Fin 0, Fin 0, Fin 0, (Fin 0, Fin 1)),
     shadersLoaded := False\<rparr>"

subsection \<open>fovMultiplier\<close>

definition fovMultiplier :: "material \<Rightarrow> jsnum" where
  "fovMultiplier m = fovMultiplier_field m"

definition set_fovMultiplier :: "jsnum \<Rightarrow> material \<Rightarrow> material" where
  "set_fovMultiplier v m =
     (let value = (if isNaN v then Fin 1 else v)
      in m\<lparr>fovMultiplier_field := Math_max (Fin 0) (Math_min (Fin 2) value)\<rparr>)"

subsection \<open>needAlphaBlending\<close>

definition needAlphaBlending :: "material \<Rightarrow> bool" where
  "needAlphaBlending m =
     (if js_lt (alpha m) (Fin 1) then True
      else case diffuseTexture m of
             Some t \<Rightarrow> (if hasAlpha t then True else shadowOnly m)
           | None \<Rightarrow> shadowOnly m)"

text \<open>A finite value in [0.0, 2.0].\<close>

definition in_fov_range :: "jsnum \<Rightarrow> bool" where
  "in_fov_range r = (case r of Fin x \<Rightarrow> 0 \<le> x \<and> x \<le> 2 | _ \<Rightarrow> False)"

section \<open>Defines\<close>

text \<open>
  A define set is a JavaScript object read and written by property name, by the material
  and by the engine's helpers (which also add properties, such as \<^verbatim>\<open>LIGHT0\<close>). The
  public properties, which are the ones that take part in the key, are the map \<open>vals\<close>;
  the underscore-prefixed bookkeeping fields the material touches are record fields.
\<close>

datatype dval = Undef | B bool | N int

fun truthy :: "dval \<Rightarrow> bool" where
  "truthy Undef = False"
| "truthy (B b) = b"
| "truthy (N n) = (n \<noteq> 0)"

record material_defines =
  vals :: "string \<Rightarrow> dval"
  isDirty :: bool
  areTexturesDirty :: bool
  areLightsDirty :: bool
  areImageProcessingDirty :: bool
  areMiscDirty :: bool
  needNormals :: bool
  needUVs :: bool
  renderId :: "nat option"

definition getv :: "string \<Rightarrow> material_defines \<Rightarrow> dval" where
  "getv k d = vals d k"

definition setv :: "string \<Rightarrow> dval \<Rightarrow> material_defines \<Rightarrow> material_defines" where
  "setv k v d = d\<lparr>vals := (vals d)(k := v)\<rparr>"

text \<open>A run of assignments \<^verbatim>\<open>defines.K = v;\<close>, executed in order.\<close>

fun assigns :: "(string \<times> dval) list \<Rightarrow> material_defines \<Rightarrow> material_defines" where
  "assigns [] d = d"
| "assigns ((k, v) # kvs) d = assigns kvs (setv k v d)"

text \<open>The property initialisers of \<^verbatim>\<open>BackgroundMaterialDefines\<close>, in declaration order.\<close>

definition BackgroundMaterialDefines_fields :: "(string \<times> dval) list" where
  "BackgroundMaterialDefines_fields =
    [(''DIFFUSE'', B False), (''DIFFUSEDIRECTUV'', N 0), (''GAMMADIFFUSE'', B False),
     (''DIFFUSEHASALPHA'', B False), (''OPACITYFRESNEL'', B False), (''REFLECTIONBLUR'', B False),
     (''REFLECTIONFRESNEL'', B False), (''REFLECTIONFALLOFF'', B False),
     (''TEXTURELODSUPPORT'', B False), (''PREMULTIPLYALPHA'', B False), (''USERGBCOLOR'', B False),
     (''USEHIGHLIGHTANDSHADOWCOLORS'', B False), (''BACKMAT_SHADOWONLY'', B False),
     (''NOISE'', B False), (''REFLECTIONBGR'', B False), (''PROJECTED_GROUND'', B False),
     (''IMAGEPROCESSING'', B False), (''VIGNETTE'', B False),
     (''VIGNETTEBLENDMODEMULTIPLY'', B False), (''VIGNETTEBLENDMODEOPAQUE'', B False),
     (''TONEMAPPING'', N 0), (''CONTRAST'', B False), (''COLORCURVES'', B False),
     (''COLORGRADING'', B False), (''COLORGRADING3D'', B False), (''SAMPLER3DGREENDEPTH'', B False),
     (''SAMPLER3DBGRMAP'', B False), (''DITHER'', B False), (''IMAGEPROCESSINGPOSTPROCESS'', B False),
     (''SKIPFINALCOLORCLAMP'', B False), (''EXPOSURE'', B False), (''MULTIVIEW'', B False),
     (''REFLECTION'', B False), (''REFLECTIONMAP_3D'', B False), (''REFLECTIONMAP_SPHERICAL'', B False),
     (''REFLECTIONMAP_PLANAR'', B False), (''REFLECTIONMAP_CUBIC'', B False),
     (''REFLECTIONMAP_PROJECTION'', B False), (''REFLECTIONMAP_SKYBOX'', B False),
     (''REFLECTIONMAP_EXPLICIT'', B False), (''REFLECTIONMAP_EQUIRECTANGULAR'', B False),
     (''REFLECTIONMAP_EQUIRECTANGULAR_FIXED'', B False),
     (''REFLECTIONMAP_MIRROREDEQUIRECTANGULAR_FIXED'', B False), (''INVERTCUBICMAP'', B False),
     (''REFLECTIONMAP_OPPOSITEZ'', B False), (''LODINREFLECTIONALPHA'', B False),
     (''GAMMAREFLECTION'', B False), (''RGBDREFLECTION'', B False),
     (''EQUIRECTANGULAR_RELFECTION_FOV'', B False),
     (''MAINUV1'', B False), (''MAINUV2'', B False), (''UV1'', B False), (''UV2'', B False),
     (''CLIPPLANE'', B False), (''CLIPPLANE2'', B False), (''CLIPPLANE3'', B False),
     (''CLIPPLANE4'', B False), (''CLIPPLANE5'', B False), (''CLIPPLANE6'', B False),
     (''POINTSIZE'', B False), (''FOG'', B False), (''NORMAL'', B False),
     (''NUM_BONE_INFLUENCERS'', N 0), (''BonesPerMesh'', N 0), (''INSTANCES'', B False),
     (''SHADOWFLOAT'', B False), (''LOGARITHMICDEPTH'', B False), (''NONUNIFORMSCALING'', B False),
     (''ALPHATEST'', B False)]"

text \<open>
  Modelled from the spec: the base class \<^verbatim>\<open>MaterialDefines\<close> (its constructor,
  \<^verbatim>\<open>isDirty\<close>, \<^verbatim>\<open>markAsProcessed\<close>, the \<^verbatim>\<open>markAs...Dirty\<close> methods, \<^verbatim>\<open>toString\<close>) is not
  under src/. A new define set is unprocessed with every partition dirty; marking a
  partition dirty sets its flag and makes the set dirty; \<^verbatim>\<open>markAsProcessed\<close> clears the
  flags; the serialized key is an injective function of the define values, represented
  here by the values themselves.
\<close>

definition new_MaterialDefines :: material_defines where
  "new_MaterialDefines =
     \<lparr>vals = (\<lambda>_. Undef), isDirty = True, areTexturesDirty = True, areLightsDirty = True,
      areImageProcessingDirty = True, areMiscDirty = True, needNormals = False,
      needUVs = False, renderId = None\<rparr>"

definition markAsProcessed :: "material_defines \<Rightarrow> material_defines" where
  "markAsProcessed d =
     d\<lparr>isDirty := False, areTexturesDirty := False, areLightsDirty := False,
       areImageProcessingDirty := False, areMiscDirty := False\<rparr>"

definition markAsTexturesDirty :: "material_defines \<Rightarrow> material_defines" where
  "markAsTexturesDirty d = d\<lparr>areTexturesDirty := True, isDirty := True\<rparr>"

definition markAsLightDirty :: "material_defines \<Rightarrow> material_defines" where
  "markAsLightDirty d = d\<lparr>areLightsDirty := True, isDirty := True\<rparr>"

definition markAsImageProcessingDirty :: "material_defines \<Rightarrow> material_defines" where
  "markAsImageProcessingDirty d = d\<lparr>areImageProcessingDirty := True, isDirty := True\<rparr>"

definition toString :: "material_defines \<Rightarrow> (string \<Rightarrow> dval)" where
  "toString d = vals d"

definition new_BackgroundMaterialDefines :: material_defines where
  "new_BackgroundMaterialDefines = assigns BackgroundMaterialDefines_fields new_MaterialDefines"

section \<open>Effects, submeshes, scene and the engine's helpers\<close>

text \<open>
  An \<^verbatim>\<open>EffectFallbacks\<close> object is the list of its \<^verbatim>\<open>addFallback(rank, define)\<close>
  calls, in call order.
\<close>

type_synonym fallbacks = "(nat \<times> string) list"

definition addFallback :: "nat \<Rightarrow> string \<Rightarrow> fallbacks \<Rightarrow> fallbacks" where
  "addFallback rank define fb = fb @ [(rank, define)]"

text \<open>
  The options passed to \<^verbatim>\<open>createEffect\<close>. The callbacks \<^verbatim>\<open>onCompiled\<close> and
  \<^verbatim>\<open>onError\<close> and the shader language are passed through unchanged and left out;
  \<open>extraInitializationsAsync\<close> tells whether the shader-import callback is passed.
\<close>

record effect_options =
  attributes :: "string list"
  uniformsNames :: "string list"
  uniformBuffersNames :: "string list"
  samplers :: "string list"
  defines_join :: "string \<Rightarrow> dval"
  effect_fallbacks :: fallbacks
  indexParameters :: nat
  extraInitializationsAsync :: bool

text \<open>
  A submesh with the fields of its draw wrapper; \<^verbatim>\<open>subMesh.effect\<close> is the effect of
  the draw wrapper, where \<^verbatim>\<open>setEffect\<close> stores it.
\<close>

record submesh =
  materialDefines :: "material_defines option"
  drawWrapper_effect :: "nat option"
  wasPreviouslyReady :: bool
  wasPreviouslyUsingInstances :: "bool option"
  forceRebindOnNextCall :: bool

record mesh =
  mesh_name :: string
  hasNormals :: bool

text \<open>What the material reads from the scene, the engine and \<^verbatim>\<open>MaterialFlags\<close>.\<close>

record scene =
  texturesEnabled :: bool
  lightsEnabled :: bool
  useRightHandedSystem :: bool
  getRenderId :: nat
  textureLOD :: bool
  standardDerivatives :: bool
  needToAlwaysBindUniformBuffers :: bool
  DiffuseTextureEnabled :: bool
  ReflectionTextureEnabled :: bool
  scene_imageProcessingConfiguration :: "nat jsref"

text \<open>
  The functions of \<^verbatim>\<open>materialHelper.functions\<close>, of the image-processing configuration,
  of \<^verbatim>\<open>PushMaterial\<close> and of the engine that \<^verbatim>\<open>isReadyForSubMesh\<close> calls are not under
  src/: they are parameters. Each takes the define set (or the lists) it may write and
  returns it; the scene, the mesh and the engine they also read are fixed in the parameter.
\<close>

record helpers =
  PrepareDefinesForLights :: "nat \<Rightarrow> material_defines \<Rightarrow> material_defines"
  PrepareDefinesForMultiview :: "material_defines \<Rightarrow> material_defines"
  PrepareDefinesForMergedUV :: "texture \<Rightarrow> string \<Rightarrow> material_defines \<Rightarrow> material_defines"
  ip_isReady :: "nat \<Rightarrow> bool"
  ip_prepareDefines :: "nat \<Rightarrow> material_defines \<Rightarrow> material_defines"
  needAlphaTestingForMesh :: bool
  PrepareDefinesForMisc :: "bool \<Rightarrow> bool \<Rightarrow> bool \<Rightarrow> bool \<Rightarrow> material_defines \<Rightarrow> material_defines"
  PrepareDefinesForFrameBoundValues :: "bool \<Rightarrow> material_defines \<Rightarrow> material_defines"
  PrepareDefinesForAttributes :: "material_defines \<Rightarrow> bool \<times> material_defines"
  HandleFallbacksForShadows :: "material_defines \<Rightarrow> nat \<Rightarrow> fallbacks \<Rightarrow> fallbacks"
  PrepareAttributesForBones :: "material_defines \<Rightarrow> string list \<times> fallbacks \<Rightarrow> string list \<times> fallbacks"
  PrepareAttributesForInstances :: "material_defines \<Rightarrow> string list \<Rightarrow> string list"
  AddClipPlaneUniforms :: "string list \<Rightarrow> string list"
  ip_PrepareUniforms :: "material_defines \<Rightarrow> string list \<Rightarrow> string list"
  ip_PrepareSamplers :: "material_defines \<Rightarrow> string list \<Rightarrow> string list"
  PrepareUniformsAndSamplersList ::
    "material_defines \<Rightarrow> nat \<Rightarrow> string list \<times> string list \<times> string list
       \<Rightarrow> string list \<times> string list \<times> string list"
  push_isReadyForSubMesh :: "submesh \<Rightarrow> bool"
  createEffect :: "effect_options \<Rightarrow> nat"
  effect_isReady :: "nat \<Rightarrow> bool"

text \<open>The calls \<^verbatim>\<open>isReadyForSubMesh\<close> makes on the scene, the engine, the mesh and itself.\<close>

datatype event =
    ResetCachedMaterial
  | CreateEffect effect_options
  | AddUniform string nat
  | UniformBufferCreate
  | CreateNormals
  | LoggerWarn string
  | CheckScenePerformancePriority

record world =
  the_material :: material
  subMesh :: submesh
  the_mesh :: "mesh option"
  events :: "event list"

section \<open>isReadyForSubMesh\<close>

subsection \<open>The textures partition\<close>

text \<open>
  \<^verbatim>\<open>if (texture && MaterialFlags.XTextureEnabled)\<close>: the texture the branch works on,
  if it is taken.
\<close>

definition enabled_texture :: "texture option \<Rightarrow> bool \<Rightarrow> texture option" where
  "enabled_texture t flag = (if flag then t else None)"

text \<open>
  The diffuse texture. The first component is False where the source returns false;
  the define set is the object as the source leaves it at that point.
\<close>

definition diffuse_defines ::
  "helpers \<Rightarrow> scene \<Rightarrow> material \<Rightarrow> material_defines \<Rightarrow> bool \<times> material_defines" where
  "diffuse_defines h sc m d =
     (case enabled_texture (diffuseTexture m) (DiffuseTextureEnabled sc) of
        Some t \<Rightarrow>
          if \<not> isReadyOrNotBlocking t then (False, d)
          else (True,
            assigns [(''DIFFUSEHASALPHA'', B (hasAlpha t)),
                     (''GAMMADIFFUSE'', B (gammaSpace t)),
                     (''OPACITYFRESNEL'', B (opacityFresnel m))]
              (PrepareDefinesForMergedUV h t ''DIFFUSE'' d))
      | None \<Rightarrow>
          (True,
            assigns [(''DIFFUSE'', B False), (''DIFFUSEDIRECTUV'', N 0),
                     (''DIFFUSEHASALPHA'', B False), (''GAMMADIFFUSE'', B False),
                     (''OPACITYFRESNEL'', B False)] d))"

text \<open>The switch on the coordinates mode: the define it sets to true.\<close>

fun reflection_mode_define :: "coordinates_mode \<Rightarrow> string" where
  "reflection_mode_define EXPLICIT_MODE = ''REFLECTIONMAP_EXPLICIT''"
| "reflection_mode_define PLANAR_MODE = ''REFLECTIONMAP_PLANAR''"
| "reflection_mode_define PROJECTION_MODE = ''REFLECTIONMAP_PROJECTION''"
| "reflection_mode_define SKYBOX_MODE = ''REFLECTIONMAP_SKYBOX''"
| "reflection_mode_define SPHERICAL_MODE = ''REFLECTIONMAP_SPHERICAL''"
| "reflection_mode_define EQUIRECTANGULAR_MODE = ''REFLECTIONMAP_EQUIRECTANGULAR''"
| "reflection_mode_define FIXED_EQUIRECTANGULAR_MODE = ''REFLECTIONMAP_EQUIRECTANGULAR_FIXED''"
| "reflection_mode_define FIXED_EQUIRECTANGULAR_MIRRORED_MODE =
     ''REFLECTIONMAP_MIRROREDEQUIRECTANGULAR_FIXED''"
| "reflection_mode_define CUBIC_MODE = ''REFLECTIONMAP_CUBIC''"
| "reflection_mode_define INVCUBIC_MODE = ''REFLECTIONMAP_CUBIC''"
| "reflection_mode_define (OTHER_MODE _) = ''REFLECTIONMAP_CUBIC''"

text \<open>The reflection texture; it also writes \<^verbatim>\<open>_reflectionControls\<close> of the material.\<close>

definition reflection_defines ::
  "scene \<Rightarrow> material \<Rightarrow> material_defines \<Rightarrow> bool \<times> material \<times> material_defines" where
  "reflection_defines sc m d =
     (case enabled_texture (reflectionTexture m) (ReflectionTextureEnabled sc) of
        Some t \<Rightarrow>
          if \<not> isReadyOrNotBlocking t then (False, m, d)
          else
            let d = assigns [(''REFLECTION'', B True),
                             (''GAMMAREFLECTION'', B (gammaSpace t)),
                             (''RGBDREFLECTION'', B (isRGBD t)),
                             (''REFLECTIONBLUR'', B (js_gt (reflectionBlur m) (Fin 0))),
                             (''LODINREFLECTIONALPHA'', B (lodLevelInAlpha t)),
                             (''EQUIRECTANGULAR_RELFECTION_FOV'', B (useEquirectangularFOV m)),
                             (''REFLECTIONBGR'', B (switchToBGR m))] d;
                d = (if coordinatesMode t = INVCUBIC_MODE
                     then setv ''INVERTCUBICMAP'' (B True) d else d);
                d = setv ''REFLECTIONMAP_3D'' (B (isCube t)) d;
                d = setv ''REFLECTIONMAP_OPPOSITEZ''
                      (B (if truthy (getv ''REFLECTIONMAP_3D'' d) \<and> useRightHandedSystem sc
                          then \<not> invertZ t else invertZ t)) d;
                d = setv (reflection_mode_define (coordinatesMode t)) (B True) d
            in if reflectionFresnel m
               then (True,
                     m\<lparr>reflectionControls :=
                         (reflectionAmount m, reflectionReflectance0 m, reflectionReflectance90 m,
                          (Fin 1, reflectionFalloffDistance m))\<rparr>,
                     assigns [(''REFLECTIONFRESNEL'', B True),
                              (''REFLECTIONFALLOFF'',
                                 B (js_gt (reflectionFalloffDistance m) (Fin 0)))] d)
               else (True, m,
                     assigns [(''REFLECTIONFRESNEL'', B False),
                              (''REFLECTIONFALLOFF'', B False)] d)
      | None \<Rightarrow>
          (True, m,
            assigns [(''REFLECTION'', B False), (''REFLECTIONFRESNEL'', B False),
                     (''REFLECTIONFALLOFF'', B False), (''REFLECTIONBLUR'', B False),
                     (''REFLECTIONMAP_3D'', B False), (''REFLECTIONMAP_SPHERICAL'', B False),
                     (''REFLECTIONMAP_PLANAR'', B False), (''REFLECTIONMAP_CUBIC'', B False),
                     (''REFLECTIONMAP_PROJECTION'', B False), (''REFLECTIONMAP_SKYBOX'', B False),
                     (''REFLECTIONMAP_EXPLICIT'', B False),
                     (''REFLECTIONMAP_EQUIRECTANGULAR'', B False),
                     (''REFLECTIONMAP_EQUIRECTANGULAR_FIXED'', B False),
                     (''REFLECTIONMAP_MIRROREDEQUIRECTANGULAR_FIXED'', B False),
                     (''INVERTCUBICMAP'', B False), (''REFLECTIONMAP_OPPOSITEZ'', B False),
                     (''LODINREFLECTIONALPHA'', B False), (''GAMMAREFLECTION'', B False),
                     (''RGBDREFLECTION'', B False)] d))"

text \<open>The three assignments that close the textures block.\<close>

definition textures_common :: "material \<Rightarrow> material_defines \<Rightarrow> material_defines" where
  "textures_common m d =
     assigns [(''PREMULTIPLYALPHA'',
                 B (alphaMode m = ALPHA_PREMULTIPLIED \<or> alphaMode m = ALPHA_PREMULTIPLIED_PORTERDUFF)),
              (''USERGBCOLOR'', B (useRGBColor m)),
              (''NOISE'', B (enableNoise m))] d"

definition texturesPartition ::
  "helpers \<Rightarrow> scene \<Rightarrow> material \<Rightarrow> material_defines \<Rightarrow> bool \<times> material \<times> material_defines" where
  "texturesPartition h sc m d =
     (if areTexturesDirty d then
        let d = d\<lparr>needUVs := False\<rparr> in
        if texturesEnabled sc then
          let d = (if textureLOD sc then setv ''TEXTURELODSUPPORT'' (B True) d else d);
              (ok, d) = diffuse_defines h sc m d
          in if \<not> ok then (False, m, d)
             else let (ok, m, d) = reflection_defines sc m d
                  in if \<not> ok then (False, m, d) else (True, m, textures_common m d)
        else (True, m, textures_common m d)
      else (True, m, d))"

subsection \<open>The lights, image-processing and misc partitions\<close>

definition lightsPartition :: "material \<Rightarrow> material_defines \<Rightarrow> material_defines" where
  "lightsPartition m d =
     (if areLightsDirty d then
        assigns [(''USEHIGHLIGHTANDSHADOWCOLORS'',
                    B (\<not> useRGBColor m \<and>
                       (js_strict_ne (primaryColorShadowLevel m) (Fin 0) \<or>
                        js_strict_ne (primaryColorHighlightLevel m) (Fin 0)))),
                 (''BACKMAT_SHADOWONLY'', B (shadowOnly m))] d
      else d)"

definition imageProcessingPartition ::
  "helpers \<Rightarrow> material \<Rightarrow> material_defines \<Rightarrow> bool \<times> material_defines" where
  "imageProcessingPartition h m d =
     (case imageProcessingConfiguration m of
        Ref c \<Rightarrow>
          if areImageProcessingDirty d then
            (if \<not> ip_isReady h c then (False, d) else (True, ip_prepareDefines h c d))
          else (True, d)
      | _ \<Rightarrow> (True, d))"

definition miscPartition :: "material \<Rightarrow> material_defines \<Rightarrow> material_defines" where
  "miscPartition m d =
     (if areMiscDirty d then
        (if truthy (getv ''REFLECTIONMAP_3D'' d) \<and> enableGroundProjection m
         then assigns [(''PROJECTED_GROUND'', B True), (''REFLECTIONMAP_SKYBOX'', B True)] d
         else setv ''PROJECTED_GROUND'' (B False) d)
      else d)"

subsection \<open>Defines of every frame, attributes\<close>

text \<open>
  The define set as the textures block finds it: after \<^verbatim>\<open>PrepareDefinesForLights\<close>,
  \<^verbatim>\<open>_needNormals = true\<close> and \<^verbatim>\<open>PrepareDefinesForMultiview\<close>.
\<close>

definition lights_and_multiview :: "helpers \<Rightarrow> material \<Rightarrow> material_defines \<Rightarrow> material_defines" where
  "lights_and_multiview h m d =
     PrepareDefinesForMultiview h
       ((PrepareDefinesForLights h (maxSimultaneousLights m) d)\<lparr>needNormals := True\<rparr>)"

text \<open>
  \<^verbatim>\<open>PrepareDefinesForMisc\<close>, \<^verbatim>\<open>PrepareDefinesForFrameBoundValues\<close> and
  \<^verbatim>\<open>PrepareDefinesForAttributes\<close>, with the boolean the last one returns.
\<close>

definition frame_defines ::
  "helpers \<Rightarrow> bool \<Rightarrow> material \<Rightarrow> material_defines \<Rightarrow> bool \<times> material_defines" where
  "frame_defines h useInstances m d =
     PrepareDefinesForAttributes h
       (PrepareDefinesForFrameBoundValues h useInstances
          (PrepareDefinesForMisc h (useLogarithmicDepth m) (pointsCloud m) (fogEnabled m)
             (needAlphaTestingForMesh h) d))"

definition createNormals :: "scene \<Rightarrow> bool \<Rightarrow> mesh option \<Rightarrow> mesh option \<times> event list" where
  "createNormals sc attributesChanged ms =
     (if attributesChanged then
        (case ms of
           Some me \<Rightarrow>
             if \<not> standardDerivatives sc \<and> \<not> hasNormals me
             then (Some (me\<lparr>hasNormals := True\<rparr>),
                   [CreateNormals,
                    LoggerWarn (''BackgroundMaterial: Normals have been created for the mesh: ''
                                @ mesh_name me)])
             else (ms, [])
         | None \<Rightarrow> (ms, []))
      else (ms, []))"

text \<open>
  The define set is an object of the submesh, written in place. In the stages below the
  first component is False where the source returns false, and the world holds the define
  set, the material and the mesh as they are at that point.
\<close>

definition store_defines :: "material_defines \<Rightarrow> world \<Rightarrow> world" where
  "store_defines d w = w\<lparr>subMesh := (subMesh w)\<lparr>materialDefines := Some d\<rparr>\<rparr>"

text \<open>From \<^verbatim>\<open>// Lights\<close> to the end of the \<^verbatim>\<open>// Textures\<close> block.\<close>

definition prepareDefines_textures ::
  "helpers \<Rightarrow> scene \<Rightarrow> material_defines \<Rightarrow> world \<Rightarrow> bool \<times> material_defines \<times> world" where
  "prepareDefines_textures h sc d w =
     (let d = lights_and_multiview h (the_material w) d;
          (ok, m, d) = texturesPartition h sc (the_material w) d
      in (ok, d, store_defines d (w\<lparr>the_material := m\<rparr>)))"

text \<open>From \<^verbatim>\<open>if (defines._areLightsDirty)\<close> to \<^verbatim>\<open>// Attribs\<close>.\<close>

definition prepareDefines_rest ::
  "helpers \<Rightarrow> scene \<Rightarrow> bool \<Rightarrow> material_defines \<Rightarrow> world \<Rightarrow> bool \<times> material_defines \<times> world" where
  "prepareDefines_rest h sc useInstances d w =
     (let m = the_material w;
          d = lightsPartition m d;
          (ok, d) = imageProcessingPartition h m d;
          w = store_defines d w
      in if \<not> ok then (False, d, w)
         else
           let d = miscPartition m d;
               (changed, d) = frame_defines h useInstances m d;
               (ms, evs) = createNormals sc changed (the_mesh w)
           in (True, d, store_defines d (w\<lparr>the_mesh := ms, events := events w @ evs\<rparr>)))"

definition prepareDefines ::
  "helpers \<Rightarrow> scene \<Rightarrow> bool \<Rightarrow> material_defines \<Rightarrow> world \<Rightarrow> bool \<times> material_defines \<times> world" where
  "prepareDefines h sc useInstances d w =
     (let (ok, d, w) = prepareDefines_textures h sc d w
      in if \<not> ok then (False, d, w) else prepareDefines_rest h sc useInstances d w)"

subsection \<open>The effect\<close>

text \<open>The fallbacks the material adds itself, before \<^verbatim>\<open>HandleFallbacksForShadows\<close>.\<close>

definition own_fallbacks :: "material_defines \<Rightarrow> fallbacks" where
  "own_fallbacks d =
     (let fb = [];
          fb = (if truthy (getv ''FOG'' d) then addFallback 0 ''FOG'' fb else fb);
          fb = (if truthy (getv ''POINTSIZE'' d) then addFallback 1 ''POINTSIZE'' fb else fb);
          fb = (if truthy (getv ''MULTIVIEW'' d) then addFallback 0 ''MULTIVIEW'' fb else fb)
      in fb)"

definition build_fallbacks :: "helpers \<Rightarrow> material \<Rightarrow> material_defines \<Rightarrow> fallbacks" where
  "build_fallbacks h m d = HandleFallbacksForShadows h d (maxSimultaneousLights m) (own_fallbacks d)"

text \<open>The vertex buffer kinds are named by their constants.\<close>

definition base_attribs :: "material_defines \<Rightarrow> string list" where
  "base_attribs d =
     [''PositionKind'']
     @ (if truthy (getv ''NORMAL'' d) then [''NormalKind''] else [])
     @ (if truthy (getv ''UV1'' d) then [''UVKind''] else [])
     @ (if truthy (getv ''UV2'' d) then [''UV2Kind''] else [])"

definition base_uniforms :: "string list" where
  "base_uniforms =
     [''world'', ''view'', ''viewProjection'', ''vEyePosition'', ''vLightsType'', ''vFogInfos'',
      ''vFogColor'', ''pointSize'', ''mBones'',
      ''vPrimaryColor'', ''vPrimaryColorShadow'', ''vReflectionInfos'', ''reflectionMatrix'',
      ''vReflectionMicrosurfaceInfos'', ''fFovMultiplier'',
      ''shadowLevel'', ''alpha'',
      ''vBackgroundCenter'', ''vReflectionControl'',
      ''vDiffuseInfos'', ''diffuseMatrix'',
      ''projectedGroundInfos'', ''logarithmicDepthConstant'']"

definition base_samplers :: "string list" where
  "base_samplers =
     [''diffuseSampler'', ''reflectionSampler'', ''reflectionSamplerLow'', ''reflectionSamplerHigh'']"

definition effectOptions :: "helpers \<Rightarrow> material \<Rightarrow> material_defines \<Rightarrow> effect_options" where
  "effectOptions h m d =
     (let (attribs, fb) = PrepareAttributesForBones h d (base_attribs d, build_fallbacks h m d);
          attribs = PrepareAttributesForInstances h d attribs;
          uniforms = ip_PrepareUniforms h d (AddClipPlaneUniforms h base_uniforms);
          smp = ip_PrepareSamplers h d base_samplers;
          (uniforms, ubos, smp) =
             PrepareUniformsAndSamplersList h d (maxSimultaneousLights m)
               (uniforms, [''Material'', ''Scene''], smp)
      in \<lparr>attributes = attribs, uniformsNames = uniforms, uniformBuffersNames = ubos,
          samplers = smp, defines_join = toString d, effect_fallbacks = fb,
          indexParameters = maxSimultaneousLights m,
          extraInitializationsAsync = (\<not> shadersLoaded m)\<rparr>)"

definition buildUniformLayout :: "event list" where
  "buildUniformLayout =
     [AddUniform ''vPrimaryColor'' 4, AddUniform ''vPrimaryColorShadow'' 4,
      AddUniform ''vDiffuseInfos'' 2, AddUniform ''vReflectionInfos'' 2,
      AddUniform ''diffuseMatrix'' 16, AddUniform ''reflectionMatrix'' 16,
      AddUniform ''vReflectionMicrosurfaceInfos'' 3, AddUniform ''fFovMultiplier'' 1,
      AddUniform ''pointSize'' 1, AddUniform ''shadowLevel'' 1, AddUniform ''alpha'' 1,
      AddUniform ''vBackgroundCenter'' 3, AddUniform ''vReflectionControl'' 4,
      AddUniform ''projectedGroundInfos'' 2, UniformBufferCreate]"

text \<open>\<^verbatim>\<open>// Get correct effect\<close>: the block under \<^verbatim>\<open>if (defines.isDirty)\<close>.\<close>

definition getEffect :: "helpers \<Rightarrow> material_defines \<Rightarrow> world \<Rightarrow> material_defines \<times> world" where
  "getEffect h d w =
     (if isDirty d then
        let d = markAsProcessed d;
            opts = effectOptions h (the_material w) d;
            effect = createEffect h opts
        in (d, w\<lparr>subMesh := (subMesh w)\<lparr>drawWrapper_effect := Some effect,
                                         materialDefines := Some d\<rparr>,
                 events := events w @ [ResetCachedMaterial, CreateEffect opts] @ buildUniformLayout\<rparr>)
      else (d, w))"

text \<open>From the test of the effect to the end.\<close>

definition finish ::
  "helpers \<Rightarrow> scene \<Rightarrow> bool \<Rightarrow> material_defines \<Rightarrow> world \<Rightarrow> bool \<times> world" where
  "finish h sc useInstances d w =
     (case drawWrapper_effect (subMesh w) of
        None \<Rightarrow> (False, w)
      | Some effect \<Rightarrow>
          if \<not> effect_isReady h effect then (False, w)
          else (True,
                w\<lparr>subMesh := (subMesh w)\<lparr>
                     materialDefines := Some (d\<lparr>renderId := Some (getRenderId sc)\<rparr>),
                     wasPreviouslyReady := True,
                     wasPreviouslyUsingInstances := Some useInstances\<rparr>,
                  events := events w @ [CheckScenePerformancePriority]\<rparr>))"

definition frozen_fast_path :: "bool \<Rightarrow> world \<Rightarrow> bool" where
  "frozen_fast_path useInstances w =
     (drawWrapper_effect (subMesh w) \<noteq> None \<and> isFrozen (the_material w) \<and>
      wasPreviouslyReady (subMesh w) \<and>
      wasPreviouslyUsingInstances (subMesh w) = Some useInstances)"

text \<open>
  The define set of the submesh, created if it has none:
  \<^verbatim>\<open>if (!subMesh.materialDefines) subMesh.materialDefines = new BackgroundMaterialDefines()\<close>.
\<close>

definition entry_defines :: "world \<Rightarrow> material_defines" where
  "entry_defines w =
     (case materialDefines (subMesh w) of
        None \<Rightarrow> new_BackgroundMaterialDefines
      | Some d \<Rightarrow> d)"

definition isReadyForSubMesh :: "helpers \<Rightarrow> scene \<Rightarrow> bool \<Rightarrow> world \<Rightarrow> bool \<times> world" where
  "isReadyForSubMesh h sc useInstances w =
     (if frozen_fast_path useInstances w then (True, w)
      else
        let d = entry_defines w;
            w = store_defines d w
        in if push_isReadyForSubMesh h (subMesh w) then (True, w)
           else
             let (ok, d, w) = prepareDefines h sc useInstances d w
             in if \<not> ok then (False, w)
                else let (d, w) = getEffect h d w
                     in finish h sc useInstances d w)"

subsection \<open>What the absent helpers are assumed to leave alone\<close>

text \<open>
  The helpers called after the textures block (\<^verbatim>\<open>prepareDefines\<close> of the image-processing
  configuration, \<^verbatim>\<open>PrepareDefinesForMisc\<close>, \<^verbatim>\<open>PrepareDefinesForFrameBoundValues\<close>,
  \<^verbatim>\<open>PrepareDefinesForAttributes\<close>) do not write the define \<open>k\<close>.
\<close>

definition frame_helpers_keep :: "helpers \<Rightarrow> string \<Rightarrow> bool" where
  "frame_helpers_keep h k =
     ((\<forall>c d. getv k (ip_prepareDefines h c d) = getv k d) \<and>
      (\<forall>logDepth points fog alphaTest d.
          getv k (PrepareDefinesForMisc h logDepth points fog alphaTest d) = getv k d) \<and>
      (\<forall>useInstances d. getv k (PrepareDefinesForFrameBoundValues h useInstances d) = getv k d) \<and>
      (\<forall>d. getv k (snd (PrepareDefinesForAttributes h d)) = getv k d))"

subsection \<open>When a refresh fails readiness\<close>

definition blocking :: "texture option \<Rightarrow> bool" where
  "blocking t = (case t of Some x \<Rightarrow> \<not> isReadyOrNotBlocking x | None \<Rightarrow> False)"

text \<open>
  The textures partition is dirty, textures are enabled, and the diffuse or the reflection
  texture in use reports not \<^verbatim>\<open>isReadyOrNotBlocking\<close>.
\<close>

definition textures_not_ready :: "scene \<Rightarrow> material \<Rightarrow> material_defines \<Rightarrow> bool" where
  "textures_not_ready sc m d =
     (areTexturesDirty d \<and> texturesEnabled sc \<and>
      (blocking (enabled_texture (diffuseTexture m) (DiffuseTextureEnabled sc)) \<or>
       blocking (enabled_texture (reflectionTexture m) (ReflectionTextureEnabled sc))))"

text \<open>
  The image-processing partition is dirty and the configuration of the material reports
  not \<^verbatim>\<open>isReady\<close>.
\<close>

definition image_processing_not_ready :: "helpers \<Rightarrow> material \<Rightarrow> material_defines \<Rightarrow> bool" where
  "image_processing_not_ready h m d =
     (areImageProcessingDirty d \<and>
      (case imageProcessingConfiguration m of Ref c \<Rightarrow> \<not> ip_isReady h c | _ \<Rightarrow> False))"

text \<open>
  One of the two holds for the define set as the call finds it at the respective block.
\<close>

definition refresh_fails :: "helpers \<Rightarrow> scene \<Rightarrow> world \<Rightarrow> bool" where
  "refresh_fails h sc w =
     (let m = the_material w;
          d = lights_and_multiview h m (entry_defines w)
      in textures_not_ready sc m d \<or>
         image_processing_not_ready h m (snd (snd (texturesPartition h sc m d))))"

subsection \<open>Properties that mark a partition dirty\<close>

text \<open>
  Modelled from the spec: the methods \<^verbatim>\<open>_markAllSubMeshesAs...Dirty\<close> of \<^verbatim>\<open>Material\<close>
  are not under src/; each marks its partition dirty on the define set of each submesh
  that has one. \<^verbatim>\<open>reflectionTexture\<close> is declared with
  \<^verbatim>\<open>expandToProperty("_markAllSubMeshesAsTexturesDirty")\<close>: assigning it stores the value
  and marks the textures dirty.
\<close>

definition markAllSubMeshesAsLightsDirty :: "world \<Rightarrow> world" where
  "markAllSubMeshesAsLightsDirty w =
     w\<lparr>subMesh := (subMesh w)\<lparr>materialDefines :=
          map_option markAsLightDirty (materialDefines (subMesh w))\<rparr>\<rparr>"

definition markAllSubMeshesAsImageProcessingDirty :: "world \<Rightarrow> world" where
  "markAllSubMeshesAsImageProcessingDirty w =
     w\<lparr>subMesh := (subMesh w)\<lparr>materialDefines :=
          map_option markAsImageProcessingDirty (materialDefines (subMesh w))\<rparr>\<rparr>"

definition markAllSubMeshesAsTexturesDirty :: "world \<Rightarrow> world" where
  "markAllSubMeshesAsTexturesDirty w =
     w\<lparr>subMesh := (subMesh w)\<lparr>materialDefines :=
          map_option markAsTexturesDirty (materialDefines (subMesh w))\<rparr>\<rparr>"

definition set_reflectionTexture :: "texture option \<Rightarrow> world \<Rightarrow> world" where
  "set_reflectionTexture t w =
     markAllSubMeshesAsTexturesDirty
       (w\<lparr>the_material := (the_material w)\<lparr>reflectionTexture := t\<rparr>\<rparr>)"

text \<open>
  The setter of \<^verbatim>\<open>primaryColorShadowLevel\<close> stores the level, recomputes the shadow and
  highlight colours (which are uploaded at bind time and are not part of this model) and
  marks the lights dirty.
\<close>

definition set_primaryColorShadowLevel :: "jsnum \<Rightarrow> world \<Rightarrow> world" where
  "set_primaryColorShadowLevel v w =
     markAllSubMeshesAsLightsDirty
       (w\<lparr>the_material := (the_material w)\<lparr>primaryColorShadowLevel := v\<rparr>\<rparr>)"

text \<open>
  The observer the material registers on its image-processing configuration: it recomputes
  the primary colour from the perceptual colour (not part of this model) and marks the
  image processing dirty.
\<close>

definition onUpdateParameters_observer :: "world \<Rightarrow> world" where
  "onUpdateParameters_observer w = markAllSubMeshesAsImageProcessingDirty w"

subsection \<open>The reflection-submode defines\<close>

text \<open>The defines the switch on the coordinates mode can set.\<close>

definition reflection_submode_defines :: "string list" where
  "reflection_submode_defines =
     [''REFLECTIONMAP_EXPLICIT'', ''REFLECTIONMAP_PLANAR'', ''REFLECTIONMAP_PROJECTION'',
      ''REFLECTIONMAP_SKYBOX'', ''REFLECTIONMAP_SPHERICAL'', ''REFLECTIONMAP_EQUIRECTANGULAR'',
      ''REFLECTIONMAP_EQUIRECTANGULAR_FIXED'', ''REFLECTIONMAP_MIRROREDEQUIRECTANGULAR_FIXED'',
      ''REFLECTIONMAP_CUBIC'']"

text \<open>The keys passed to \<^verbatim>\<open>createEffect\<close> so far, oldest first.\<close>

fun requested_keys :: "event list \<Rightarrow> (string \<Rightarrow> dval) list" where
  "requested_keys [] = []"
| "requested_keys (CreateEffect opts # es) = defines_join opts # requested_keys es"
| "requested_keys (_ # es) = requested_keys es"

text \<open>The value a serialized key gives to the define \<open>k\<close>.\<close>

definition key_value :: "string \<Rightarrow> (string \<Rightarrow> dval) \<Rightarrow> dval" where
  "key_value k key = key k"

subsection \<open>The order in which fallbacks are applied\<close>

text \<open>
  Modelled from the spec: \<^verbatim>\<open>EffectFallbacks\<close> is not under src/. The backend disables the
  defines of the list by ascending priority number, those of equal number in the order
  in which they were added.
\<close>

definition disable_order :: "fallbacks \<Rightarrow> string list" where
  "disable_order fb = map snd (sort_key fst fb)"

subsection \<open>A frame in which nothing changed\<close>


text \<open>Every partition is clean and the define set has been processed.\<close>

definition clean :: "material_defines \<Rightarrow> bool" where
  "clean d =
     (\<not> isDirty d \<and> \<not> areTexturesDirty d \<and> \<not> areLightsDirty d \<and>
      \<not> areImageProcessingDirty d \<and> \<not> areMiscDirty d)"

section \<open>The image-processing configuration and its observer\<close>

text \<open>
  Modelled from the spec: \<^verbatim>\<open>Observable\<close> is not under src/. Each image-processing
  configuration has a change notification, \<^verbatim>\<open>onUpdateParameters\<close>: \<^verbatim>\<open>add\<close> registers a
  new observer and returns it, \<^verbatim>\<open>remove\<close> unregisters the observer it is given, and a
  notification is delivered once to each registered observer. The state below holds, for
  every configuration, the observers this material has registered on it, in order, and
  the number of observers created so far, which names the next one.
\<close>

record observables =
  onUpdateParameters :: "nat \<Rightarrow> nat list"
  created :: nat

definition no_observers :: observables where
  "no_observers = \<lparr>onUpdateParameters = (\<lambda>_. []), created = 0\<rparr>"

definition observable_add :: "nat \<Rightarrow> observables \<Rightarrow> nat \<times> observables" where
  "observable_add c os =
     (created os,
      os\<lparr>onUpdateParameters := (onUpdateParameters os)(c := onUpdateParameters os c @ [created os]),
         created := Suc (created os)\<rparr>)"

definition observable_remove :: "nat \<Rightarrow> nat \<Rightarrow> observables \<Rightarrow> observables" where
  "observable_remove c ob os =
     os\<lparr>onUpdateParameters := (onUpdateParameters os)(c := remove1 ob (onUpdateParameters os c))\<rparr>"

text \<open>The three steps of \<^verbatim>\<open>_attachImageProcessingConfiguration\<close>, named by their comments.\<close>

definition detach_observer :: "material \<Rightarrow> observables \<Rightarrow> observables" where
  "detach_observer m os =
     (case (imageProcessingConfiguration m, imageProcessingObserver m) of
        (Ref c, Some ob) \<Rightarrow> observable_remove c ob os
      | _ \<Rightarrow> os)"

definition pick_configuration :: "scene \<Rightarrow> nat jsref \<Rightarrow> nat jsref" where
  "pick_configuration sc configuration =
     (if \<not> truthy_ref configuration then scene_imageProcessingConfiguration sc
      else configuration)"

definition attach_observer :: "material \<Rightarrow> observables \<Rightarrow> material \<times> observables" where
  "attach_observer m os =
     (case imageProcessingConfiguration m of
        Ref c \<Rightarrow>
          let (ob, os) = observable_add c os
          in (m\<lparr>imageProcessingObserver := Some ob\<rparr>, os)
      | _ \<Rightarrow> (m, os))"

definition attachImageProcessingConfiguration ::
  "scene \<Rightarrow> nat jsref \<Rightarrow> material \<times> observables \<Rightarrow> material \<times> observables" where
  "attachImageProcessingConfiguration sc configuration s =
     (let (m, os) = s in
      if configuration = imageProcessingConfiguration m then (m, os)
      else
        let os = detach_observer m os;
            m = m\<lparr>imageProcessingConfiguration := pick_configuration sc configuration\<rparr>
        in attach_observer m os)"

text \<open>
  The constructor: the field initialisers, then
  \<^verbatim>\<open>this._attachImageProcessingConfiguration(null)\<close>.
\<close>

definition constructor :: "scene \<Rightarrow> material \<Rightarrow> observables \<Rightarrow> material \<times> observables" where
  "constructor sc base os = attachImageProcessingConfiguration sc Null (field_initialisers base, os)"

text \<open>
  The setter of \<^verbatim>\<open>imageProcessingConfiguration\<close>: attach, then mark the textures dirty.
\<close>

definition set_imageProcessingConfiguration ::
  "scene \<Rightarrow> nat jsref \<Rightarrow> world \<times> observables \<Rightarrow> world \<times> observables" where
  "set_imageProcessingConfiguration sc v s =
     (let (w, os) = s;
          (m, os) = attachImageProcessingConfiguration sc v (the_material w, os)
      in (markAllSubMeshesAsTexturesDirty (w\<lparr>the_material := m\<rparr>), os))"

text \<open>
  \<^verbatim>\<open>dispose\<close>: of its statements only the removal of the observer touches the
  configuration or its observers.
\<close>

definition dispose :: "material \<times> observables \<Rightarrow> material \<times> observables" where
  "dispose s = (let (m, os) = s in (m, detach_observer m os))"

text \<open>A call that attaches or detaches, and a sequence of them on a world.\<close>

datatype ipc_call = Attach "nat jsref" | Assign "nat jsref" | Dispose

fun ipc_step :: "scene \<Rightarrow> ipc_call \<Rightarrow> world \<times> observables \<Rightarrow> world \<times> observables" where
  "ipc_step sc (Attach c) (w, os) =
     (let (m, os) = attachImageProcessingConfiguration sc c (the_material w, os)
      in (w\<lparr>the_material := m\<rparr>, os))"
| "ipc_step sc (Assign c) (w, os) = set_imageProcessingConfiguration sc c (w, os)"
| "ipc_step sc Dispose (w, os) =
     (let (m, os) = dispose (the_material w, os) in (w\<lparr>the_material := m\<rparr>, os))"

text \<open>A world whose material has just been constructed, before any observer exists.\<close>

definition constructed :: "scene \<Rightarrow> world \<Rightarrow> world \<times> observables" where
  "constructed sc w =
     (let (m, os) = constructor sc (the_material w) no_observers in (w\<lparr>the_material := m\<rparr>, os))"

text \<open>
  At most one observer is registered, on at most one configuration: every configuration
  has no observer, unless it is the configuration of the material, which may have exactly
  the observer the material holds.
\<close>

definition at_most_one_observer :: "material \<Rightarrow> observables \<Rightarrow> bool" where
  "at_most_one_observer m os =
     (\<forall>c. onUpdateParameters os c = [] \<or>
          (imageProcessingConfiguration m = Ref c \<and>
           (\<exists>ob. imageProcessingObserver m = Some ob \<and> onUpdateParameters os c = [ob])))"

section \<open>bindForSubMesh\<close>

text \<open>
  The calls \<^verbatim>\<open>bindForSubMesh\<close> makes on the effect, the uniform buffer, the scene and the
  binding helpers, in order. An upload to the uniform buffer is recorded by the name of
  the uniform it writes, a texture binding by the sampler and the name of the texture;
  the values uploaded are left out.
\<close>

datatype gpu_call =
    SetMatrix string
  | BindBonesParameters
  | BindToEffect string
  | BindViewProjection
  | UpdateFloat string
  | UpdateFloat2 string
  | UpdateFloat3 string
  | UpdateFloat4 string
  | UpdateMatrix string
  | UpdateColor4 string
  | BindTextureMatrix string
  | SetTexture string string
  | BindClipPlane
  | BindEyePosition
  | BindLights
  | BindView
  | BindFogParameters
  | BindLogDepth
  | ImageProcessingBind
  | AfterBind
  | UniformBufferUpdate

text \<open>
  An upload to the uniform buffer: the \<^verbatim>\<open>update...\<close> calls, and \<^verbatim>\<open>BindTextureMatrix\<close>,
  which uploads the texture matrix.
\<close>

fun is_uniform_upload :: "gpu_call \<Rightarrow> bool" where
  "is_uniform_upload (UpdateFloat _) = True"
| "is_uniform_upload (UpdateFloat2 _) = True"
| "is_uniform_upload (UpdateFloat3 _) = True"
| "is_uniform_upload (UpdateFloat4 _) = True"
| "is_uniform_upload (UpdateMatrix _) = True"
| "is_uniform_upload (UpdateColor4 _) = True"
| "is_uniform_upload (BindTextureMatrix _) = True"
| "is_uniform_upload _ = False"

fun is_setTexture :: "gpu_call \<Rightarrow> bool" where
  "is_setTexture (SetTexture _ _) = True"
| "is_setTexture _ = False"


text \<open>The block under \<^verbatim>\<open>if (!useUbo || !isFrozen || !isSync || _forceRebindOnNextCall)\<close>.\<close>

definition uniform_block ::
  "scene \<Rightarrow> material \<Rightarrow> submesh \<Rightarrow> material_defines \<Rightarrow> gpu_call list" where
  "uniform_block sc m sm d =
     (if \<not> useUbo m \<or> \<not> isFrozen m \<or> \<not> isSync m \<or> forceRebindOnNextCall sm then
        (if texturesEnabled sc then
           (case enabled_texture (diffuseTexture m) (DiffuseTextureEnabled sc) of
              Some t \<Rightarrow> [UpdateFloat2 ''vDiffuseInfos'', BindTextureMatrix ''diffuse'']
            | None \<Rightarrow> [])
           @ (case enabled_texture (reflectionTexture m) (ReflectionTextureEnabled sc) of
                Some t \<Rightarrow> [UpdateMatrix ''reflectionMatrix'', UpdateFloat2 ''vReflectionInfos'',
                           UpdateFloat3 ''vReflectionMicrosurfaceInfos'']
              | None \<Rightarrow> [])
         else [])
        @ (if js_gt (shadowLevel m) (Fin 0) then [UpdateFloat ''shadowLevel''] else [])
        @ [UpdateFloat ''alpha'']
        @ (if pointsCloud m then [UpdateFloat ''pointSize''] else [])
        @ (if truthy (getv ''USEHIGHLIGHTANDSHADOWCOLORS'' d)
           then [UpdateColor4 ''vPrimaryColor'', UpdateColor4 ''vPrimaryColorShadow'']
           else [UpdateColor4 ''vPrimaryColor''])
      else [])"



text \<open>The block under \<^verbatim>\<open>if (mustRebind || !this.isFrozen)\<close>.\<close>

definition lights_view_fog_block :: "scene \<Rightarrow> material \<Rightarrow> gpu_call list" where
  "lights_view_fog_block sc m =
     (if lightsEnabled sc then [BindLights] else [])
     @ [BindView, BindFogParameters]
     @ (if useLogarithmicDepth m then [BindLogDepth] else [])
     @ (if truthy_ref (imageProcessingConfiguration m) then [ImageProcessingBind] else [])"


section \<open>Concrete inputs\<close>

text \<open>
  A material as the base constructors leave it: opaque, not frozen, with fog enabled,
  a uniform buffer object that is not yet in sync and no effect bound. The fields the
  class initialises itself are overwritten by its constructor.
\<close>

definition base_material :: material where
  "base_material =
     \<lparr>alpha = Fin 1, alphaMode = ALPHA_OTHER 2, isFrozen = False, pointsCloud = False,
      fogEnabled = True, useLogarithmicDepth = False,
      primaryColorShadowLevel = Fin 0, primaryColorHighlightLevel = Fin 0,
      reflectionTexture = None, reflectionBlur = Fin 0, diffuseTexture = None,
      shadowLevel = Fin 0, opacityFresnel = False, reflectionFresnel = False,
      reflectionFalloffDistance = Fin 0, reflectionAmount = Fin 0,
      reflectionReflectance0 = Fin 0, reflectionReflectance90 = Fin 0,
      useRGBColor = False, enableNoise = False, fovMultiplier_field = Fin 0,
      useEquirectangularFOV = False, maxSimultaneousLights = 0, shadowOnly = False,
      imageProcessingConfiguration = Undefined, imageProcessingObserver = None,
      switchToBGR = False, enableGroundProjection = False,
      reflectionControls = (Fin 0, Fin 0, Fin 0, (Fin 0, Fin 1)),
      shadersLoaded = False, useUbo = True, isSync = False,
      activeEffect = None, needToBindSceneUbo = False\<rparr>"

text \<open>
  A scene with textures and lights enabled, on an engine that supports texture LOD, whose
  image-processing configuration is configuration 0.
\<close>

definition example_scene :: scene where
  "example_scene =
     \<lparr>texturesEnabled = True, lightsEnabled = True, useRightHandedSystem = False,
      getRenderId = 1, textureLOD = True, standardDerivatives = True,
      needToAlwaysBindUniformBuffers = False, DiffuseTextureEnabled = True,
      ReflectionTextureEnabled = True, scene_imageProcessingConfiguration = Ref 0\<rparr>"

text \<open>A material just constructed on that scene.\<close>

definition new_material :: material where
  "new_material = fst (constructor example_scene base_material no_observers)"

text \<open>
  Helpers for a frame in which the engine's helpers find nothing to change: no lights, no
  fog, no clip plane, no bones, no instances, attributes unchanged, the image-processing
  configuration ready. Every effect the engine creates is effect 0, and it is ready.
\<close>

definition idle_helpers :: helpers where
  "idle_helpers =
     \<lparr>PrepareDefinesForLights = (\<lambda>n d. d),
      PrepareDefinesForMultiview = (\<lambda>d. d),
      PrepareDefinesForMergedUV = (\<lambda>t k d. d),
      ip_isReady = (\<lambda>c. True),
      ip_prepareDefines = (\<lambda>c d. d),
      needAlphaTestingForMesh = False,
      PrepareDefinesForMisc = (\<lambda>logDepth points fog alphaTest d. d),
      PrepareDefinesForFrameBoundValues = (\<lambda>useInstances d. d),
      PrepareDefinesForAttributes = (\<lambda>d. (False, d)),
      HandleFallbacksForShadows = (\<lambda>d n fb. fb),
      PrepareAttributesForBones = (\<lambda>d p. p),
      PrepareAttributesForInstances = (\<lambda>d attribs. attribs),
      AddClipPlaneUniforms = (\<lambda>uniforms. uniforms),
      ip_PrepareUniforms = (\<lambda>d uniforms. uniforms),
      ip_PrepareSamplers = (\<lambda>d smp. smp),
      PrepareUniformsAndSamplersList = (\<lambda>d n lists. lists),
      push_isReadyForSubMesh = (\<lambda>sm. False),
      createEffect = (\<lambda>opts. 0),
      effect_isReady = (\<lambda>e. True)\<rparr>"

definition new_submesh :: submesh where
  "new_submesh =
     \<lparr>materialDefines = None, drawWrapper_effect = None, wasPreviouslyReady = False,
      wasPreviouslyUsingInstances = None, forceRebindOnNextCall = False\<rparr>"

definition new_world :: world where
  "new_world = \<lparr>the_material = new_material, subMesh = new_submesh, the_mesh = None, events = []\<rparr>"

text \<open>A submesh that was found ready without instances, of a material that was then frozen.\<close>

definition frozen_ready_world :: world where
  "frozen_ready_world =
     \<lparr>the_material = new_material\<lparr>isFrozen := True\<rparr>,
      subMesh = new_submesh\<lparr>materialDefines := Some (markAsProcessed new_BackgroundMaterialDefines),
                            drawWrapper_effect := Some 0, wasPreviouslyReady := True,
                            wasPreviouslyUsingInstances := Some False\<rparr>,
      the_mesh = None, events = []\<rparr>"

text \<open>
  A new material set to grey-scale maps with a shadow level of one half, on a submesh
  that has never been checked.
\<close>

definition highlight_world :: world where
  "highlight_world =
     new_world\<lparr>the_material :=
        new_material\<lparr>useRGBColor := False, primaryColorShadowLevel := Fin (1 / 2)\<rparr>\<rparr>"

text \<open>
  A material set to grey-scale maps is checked on a new submesh and found ready. Then its
  shadow level is set to one half and its image-processing configuration notifies a
  change. In \<open>loading_helpers\<close> that configuration is not ready.
\<close>

definition grey_frame :: "bool \<times> world" where
  "grey_frame =
     isReadyForSubMesh idle_helpers example_scene False
       (new_world\<lparr>the_material := new_material\<lparr>useRGBColor := False\<rparr>\<rparr>)"

definition relit_world :: world where
  "relit_world =
     onUpdateParameters_observer (set_primaryColorShadowLevel (Fin (1 / 2)) (snd grey_frame))"

definition loading_helpers :: helpers where
  "loading_helpers = idle_helpers\<lparr>ip_isReady := (\<lambda>c. False)\<rparr>"

text \<open>
  Two loaded reflection textures, one in planar and one in spherical coordinates mode.
  The material is given the first, the submesh is checked, the material is given the
  second, and the submesh is checked again.
\<close>

definition planar_texture :: texture where
  "planar_texture =
     \<lparr>tex_name = ''planar'', isReadyOrNotBlocking = True, hasAlpha = False, gammaSpace = False,
      isRGBD = False, lodLevelInAlpha = False, isCube = False, invertZ = False,
      isRenderTarget = False, coordinatesMode = PLANAR_MODE,
      lodTextureMid = None, lodTextureLow = None, lodTextureHigh = None\<rparr>"

definition spherical_texture :: texture where
  "spherical_texture = planar_texture\<lparr>tex_name := ''spherical'', coordinatesMode := SPHERICAL_MODE\<rparr>"

definition planar_frame :: "bool \<times> world" where
  "planar_frame =
     isReadyForSubMesh idle_helpers example_scene False
       (set_reflectionTexture (Some planar_texture) new_world)"

definition spherical_frame :: "bool \<times> world" where
  "spherical_frame =
     isReadyForSubMesh idle_helpers example_scene False
       (set_reflectionTexture (Some spherical_texture) (snd planar_frame))"

text \<open>
  After the constructor (which attaches configuration 0 of the scene): attach
  configuration 1, attach it again, assign null, assign configuration 2.
\<close>

definition attach_calls :: "ipc_call list" where
  "attach_calls = [Attach (Ref 1), Attach (Ref 1), Assign Null, Assign (Ref 2)]"


text \<open>A define set with fog, point size and multiview on, and no light.\<close>

definition foggy_defines :: material_defines where
  "foggy_defines =
     assigns [(''FOG'', B True), (''POINTSIZE'', B True), (''MULTIVIEW'', B True)]
       new_BackgroundMaterialDefines"





text \<open>
  A reflection texture that is still loading, given to a new material whose submesh has
  never been checked.
\<close>

definition loading_texture :: texture where
  "loading_texture = spherical_texture\<lparr>tex_name := ''loading'', isReadyOrNotBlocking := False\<rparr>"

definition loading_world :: world where
  "loading_world = set_reflectionTexture (Some loading_texture) new_world"
section \<open>Lemmas on define sets and stages\<close>

lemma new_material_eq:
  "new_material =
     (field_initialisers base_material)\<lparr>imageProcessingConfiguration := Ref 0,
                                          imageProcessingObserver := Some 0\<rparr>"
  by (simp add: new_material_def constructor_def attachImageProcessingConfiguration_def
      field_initialisers_def detach_observer_def pick_configuration_def example_scene_def
      attach_observer_def observable_add_def no_observers_def Let_def)


lemma getv_setv [simp]: "getv k (setv k' v d) = (if k = k' then v else getv k d)"
  by (simp add: getv_def setv_def)

lemma flags_setv [simp]:
  "isDirty (setv k v d) = isDirty d"
  "areTexturesDirty (setv k v d) = areTexturesDirty d"
  "areLightsDirty (setv k v d) = areLightsDirty d"
  "areImageProcessingDirty (setv k v d) = areImageProcessingDirty d"
  "areMiscDirty (setv k v d) = areMiscDirty d"
  "needNormals (setv k v d) = needNormals d"
  "needUVs (setv k v d) = needUVs d"
  "renderId (setv k v d) = renderId d"
  by (simp_all add: setv_def)

lemma flags_assigns [simp]:
  "isDirty (assigns kvs d) = isDirty d"
  "areTexturesDirty (assigns kvs d) = areTexturesDirty d"
  "areLightsDirty (assigns kvs d) = areLightsDirty d"
  "areImageProcessingDirty (assigns kvs d) = areImageProcessingDirty d"
  "areMiscDirty (assigns kvs d) = areMiscDirty d"
  "needNormals (assigns kvs d) = needNormals d"
  "needUVs (assigns kvs d) = needUVs d"
  "renderId (assigns kvs d) = renderId d"
  by (induction kvs d rule: assigns.induct; simp)+

lemma getv_assigns_other: "k \<notin> fst ` set kvs \<Longrightarrow> getv k (assigns kvs d) = getv k d"
  by (induction kvs d rule: assigns.induct) auto

lemma store_defines_simps [simp]:
  "materialDefines (subMesh (store_defines d w)) = Some d"
  "drawWrapper_effect (subMesh (store_defines d w)) = drawWrapper_effect (subMesh w)"
  "wasPreviouslyReady (subMesh (store_defines d w)) = wasPreviouslyReady (subMesh w)"
  "wasPreviouslyUsingInstances (subMesh (store_defines d w)) = wasPreviouslyUsingInstances (subMesh w)"
  "forceRebindOnNextCall (subMesh (store_defines d w)) = forceRebindOnNextCall (subMesh w)"
  "the_material (store_defines d w) = the_material w"
  "the_mesh (store_defines d w) = the_mesh w"
  "events (store_defines d w) = events w"
  by (simp_all add: store_defines_def)

lemma lightsPartition_highlight:
  "areLightsDirty d \<Longrightarrow>
   getv ''USEHIGHLIGHTANDSHADOWCOLORS'' (lightsPartition m d) =
     B (\<not> useRGBColor m \<and>
        (js_strict_ne (primaryColorShadowLevel m) (Fin 0) \<or>
         js_strict_ne (primaryColorHighlightLevel m) (Fin 0)))"
  by (simp add: lightsPartition_def)

lemma miscPartition_other:
  "k \<noteq> ''PROJECTED_GROUND'' \<Longrightarrow> k \<noteq> ''REFLECTIONMAP_SKYBOX'' \<Longrightarrow>
   getv k (miscPartition m d) = getv k d"
  by (simp add: miscPartition_def)

lemma imageProcessingPartition_keep:
  "frame_helpers_keep h k \<Longrightarrow> getv k (snd (imageProcessingPartition h m d)) = getv k d"
  by (simp add: imageProcessingPartition_def frame_helpers_keep_def split: jsref.splits)

lemma frame_defines_keep:
  "frame_helpers_keep h k \<Longrightarrow> getv k (snd (frame_defines h u m d)) = getv k d"
  by (simp add: frame_defines_def frame_helpers_keep_def)

lemma prepareDefines_rest_stored:
  "prepareDefines_rest h sc u d w = (ok, d', w') \<Longrightarrow> materialDefines (subMesh w') = Some d'"
  by (auto simp: prepareDefines_rest_def Let_def split: prod.splits if_splits)

lemma prepareDefines_rest_keep:
  assumes "frame_helpers_keep h k" "k \<noteq> ''PROJECTED_GROUND''" "k \<noteq> ''REFLECTIONMAP_SKYBOX''"
    and "prepareDefines_rest h sc u d w = (ok, d', w')"
  shows "getv k d' = getv k (lightsPartition (the_material w) d)"
proof -
  let ?m = "the_material w"
  let ?d1 = "lightsPartition ?m d"
  let ?ip = "imageProcessingPartition h ?m ?d1"
  have ip: "getv k (snd ?ip) = getv k ?d1"
    using assms(1) by (rule imageProcessingPartition_keep)
  show ?thesis
  proof (cases "fst ?ip")
    case False
    with assms(4) have "d' = snd ?ip"
      by (auto simp: prepareDefines_rest_def Let_def split: prod.splits)
    with ip show ?thesis by simp
  next
    case True
    with assms(4) have "d' = snd (frame_defines h u ?m (miscPartition ?m (snd ?ip)))"
      by (auto simp: prepareDefines_rest_def Let_def split: prod.splits)
    with ip assms(1-3) show ?thesis
      by (simp add: frame_defines_keep miscPartition_other)
  qed
qed

lemma getEffect_vals:
  "getEffect h d w = (d', w') \<Longrightarrow> vals d' = vals d"
  by (auto simp: getEffect_def markAsProcessed_def Let_def split: if_splits)

lemma getEffect_stored:
  "materialDefines (subMesh w) = Some d \<Longrightarrow> getEffect h d w = (d', w') \<Longrightarrow>
   materialDefines (subMesh w') = Some d'"
  by (auto simp: getEffect_def Let_def split: if_splits)

lemma finish_stored:
  "materialDefines (subMesh w) = Some d \<Longrightarrow> finish h sc u d w = (r, w') \<Longrightarrow>
   \<exists>d'. materialDefines (subMesh w') = Some d' \<and> vals d' = vals d"
  by (auto simp: finish_def split: option.splits if_splits)

lemma reflection_defines_material:
  "reflection_defines sc m d = (ok, m', d') \<Longrightarrow>
   m' = m\<lparr>reflectionControls := reflectionControls m'\<rparr>"
  by (auto simp: reflection_defines_def Let_def split: option.splits if_splits)

lemma texturesPartition_material:
  "texturesPartition h sc m d = (ok, m', d') \<Longrightarrow>
   m' = m\<lparr>reflectionControls := reflectionControls m'\<rparr>"
  by (auto simp: texturesPartition_def Let_def split: if_splits prod.splits
      dest: reflection_defines_material)

lemma prepareDefines_textures_material:
  "prepareDefines_textures h sc d w = (ok, d', w') \<Longrightarrow>
   the_material w' = (the_material w)\<lparr>reflectionControls := reflectionControls (the_material w')\<rparr>"
  by (auto simp: prepareDefines_textures_def Let_def split: prod.splits
      dest: texturesPartition_material)

lemma idle_helpers_keep: "frame_helpers_keep idle_helpers k"
  by (simp add: frame_helpers_keep_def idle_helpers_def)

lemma entry_defines_flags:
  "materialDefines (subMesh w) = None \<Longrightarrow> areLightsDirty (entry_defines w)"
  "materialDefines (subMesh w) = None \<Longrightarrow> areTexturesDirty (entry_defines w)"
  by (simp_all add: entry_defines_def new_BackgroundMaterialDefines_def new_MaterialDefines_def)


lemma diffuse_defines_fails:
  "fst (diffuse_defines h sc m d) =
     (\<not> blocking (enabled_texture (diffuseTexture m) (DiffuseTextureEnabled sc)))"
  by (simp add: diffuse_defines_def blocking_def split: option.splits)

lemma reflection_defines_fails:
  "fst (reflection_defines sc m d) =
     (\<not> blocking (enabled_texture (reflectionTexture m) (ReflectionTextureEnabled sc)))"
  by (simp add: reflection_defines_def blocking_def Let_def split: option.splits)

lemma texturesPartition_fails:
  "fst (texturesPartition h sc m d) = (\<not> textures_not_ready sc m d)"
proof -
  have r: "\<And>d'. fst (reflection_defines sc m d') =
     (\<not> blocking (enabled_texture (reflectionTexture m) (ReflectionTextureEnabled sc)))"
    by (rule reflection_defines_fails)
  have d: "\<And>d'. fst (diffuse_defines h sc m d') =
     (\<not> blocking (enabled_texture (diffuseTexture m) (DiffuseTextureEnabled sc)))"
    by (rule diffuse_defines_fails)
  show ?thesis
    unfolding texturesPartition_def textures_not_ready_def Let_def
    using r d by (auto split: prod.splits if_splits) (metis fst_conv)+
qed

lemma imageProcessingPartition_fails:
  "fst (imageProcessingPartition h m d) = (\<not> image_processing_not_ready h m d)"
  by (simp add: imageProcessingPartition_def image_processing_not_ready_def split: jsref.splits)

lemma prepareDefines_textures_frame:
  assumes "prepareDefines_textures h sc d w = (ok, d', w')"
  shows "events w' = events w" "the_mesh w' = the_mesh w"
    "drawWrapper_effect (subMesh w') = drawWrapper_effect (subMesh w)"
    "wasPreviouslyReady (subMesh w') = wasPreviouslyReady (subMesh w)"
    "wasPreviouslyUsingInstances (subMesh w') = wasPreviouslyUsingInstances (subMesh w)"
    "materialDefines (subMesh w') = Some d'"
  using assms by (auto simp: prepareDefines_textures_def Let_def split: prod.splits)

lemma prepareDefines_rest_fails_frame:
  assumes "prepareDefines_rest h sc u d w = (False, d', w')"
  shows "events w' = events w"
    "drawWrapper_effect (subMesh w') = drawWrapper_effect (subMesh w)"
    "wasPreviouslyReady (subMesh w') = wasPreviouslyReady (subMesh w)"
    "wasPreviouslyUsingInstances (subMesh w') = wasPreviouslyUsingInstances (subMesh w)"
  using assms by (auto simp: prepareDefines_rest_def Let_def split: prod.splits if_splits)

lemma prepareDefines_rest_ok:
  "fst (prepareDefines_rest h sc u d w) =
     (\<not> image_processing_not_ready h (the_material w) d)"
proof -
  have "fst (imageProcessingPartition h (the_material w) (lightsPartition (the_material w) d))
        = (\<not> image_processing_not_ready h (the_material w) d)"
    by (simp add: imageProcessingPartition_fails image_processing_not_ready_def
        lightsPartition_def)
  then show ?thesis
    by (auto simp: prepareDefines_rest_def Let_def split: prod.splits)
qed

lemma getv_new_highlight:
  "getv ''USEHIGHLIGHTANDSHADOWCOLORS'' new_BackgroundMaterialDefines = B False"
  by (simp add: new_BackgroundMaterialDefines_def BackgroundMaterialDefines_fields_def)

lemma getv_marks [simp]:
  "getv k (markAsProcessed d) = getv k d"
  "getv k (markAsLightDirty d) = getv k d"
  "getv k (markAsTexturesDirty d) = getv k d"
  "getv k (markAsImageProcessingDirty d) = getv k d"
  by (simp_all add: getv_def markAsProcessed_def markAsLightDirty_def markAsTexturesDirty_def
      markAsImageProcessingDirty_def)

lemma idle_simps [simp]:
  "PrepareDefinesForLights idle_helpers n d = d"
  "PrepareDefinesForMultiview idle_helpers d = d"
  "PrepareDefinesForMergedUV idle_helpers t k d = d"
  "ip_isReady idle_helpers c"
  "ip_prepareDefines idle_helpers c d = d"
  "PrepareDefinesForMisc idle_helpers a b x y d = d"
  "PrepareDefinesForFrameBoundValues idle_helpers u d = d"
  "PrepareDefinesForAttributes idle_helpers d = (False, d)"
  "\<not> push_isReadyForSubMesh idle_helpers sm"
  "createEffect idle_helpers opts = 0"
  "effect_isReady idle_helpers eff"
  by (simp_all add: idle_helpers_def)

lemma flags_partitions [simp]:
  "isDirty (lightsPartition m d) = isDirty d"
  "isDirty (miscPartition m d) = isDirty d"
  "isDirty (textures_common m d) = isDirty d"
  by (simp_all add: lightsPartition_def miscPartition_def textures_common_def)

lemma idle_rest:
  "prepareDefines_rest idle_helpers sc u d w =
     (True, miscPartition (the_material w) (lightsPartition (the_material w) d),
      store_defines (miscPartition (the_material w) (lightsPartition (the_material w) d)) w)"
  by (simp add: prepareDefines_rest_def imageProcessingPartition_def frame_defines_def
      createNormals_def Let_def store_defines_def split: jsref.splits)

lemma idle_textures:
  "prepareDefines_textures idle_helpers sc d w =
     (case texturesPartition idle_helpers sc (the_material w) (d\<lparr>needNormals := True\<rparr>) of
        (ok, m1, d1) \<Rightarrow> (ok, d1, store_defines d1 (w\<lparr>the_material := m1\<rparr>)))"
  by (simp add: prepareDefines_textures_def lights_and_multiview_def Let_def)

text \<open>
  With the idle helpers, a call that passes the textures block with a dirty define set
  compiles: the world it returns.
\<close>

lemma idle_dirty_call:
  assumes nofast: "\<not> frozen_fast_path u w"
    and tex: "texturesPartition idle_helpers sc (the_material w)
           (entry_defines w\<lparr>needNormals := True\<rparr>) = (True, m1, d1)"
    and dirty: "isDirty d1"
    and D: "D = markAsProcessed (miscPartition m1 (lightsPartition m1 d1))"
  shows "isReadyForSubMesh idle_helpers sc u w =
     (True,
      w\<lparr>the_material := m1,
        subMesh := (subMesh w)\<lparr>
          materialDefines := Some (D\<lparr>renderId := Some (getRenderId sc)\<rparr>),
          drawWrapper_effect := Some 0,
          wasPreviouslyReady := True,
          wasPreviouslyUsingInstances := Some u\<rparr>,
        events := events w @ [ResetCachedMaterial, CreateEffect (effectOptions idle_helpers m1 D)]
                   @ buildUniformLayout @ [CheckScenePerformancePriority]\<rparr>)"
proof -
  let ?w0 = "store_defines (entry_defines w) w"
  let ?d2 = "miscPartition m1 (lightsPartition m1 d1)"
  let ?w1 = "store_defines d1 (?w0\<lparr>the_material := m1\<rparr>)"
  let ?w2 = "store_defines ?d2 ?w1"
  have t: "prepareDefines_textures idle_helpers sc (entry_defines w) ?w0 = (True, d1, ?w1)"
    using tex by (simp add: idle_textures)
  have r: "prepareDefines_rest idle_helpers sc u d1 ?w1 = (True, ?d2, ?w2)"
    by (simp add: idle_rest)
  have p: "prepareDefines idle_helpers sc u (entry_defines w) ?w0 = (True, ?d2, ?w2)"
    by (simp add: prepareDefines_def t r)
  have dd: "isDirty ?d2" using dirty by simp
  have g: "getEffect idle_helpers ?d2 ?w2 =
      (D, ?w2\<lparr>subMesh := (subMesh ?w2)\<lparr>drawWrapper_effect := Some 0, materialDefines := Some D\<rparr>,
              events := events ?w2 @ [ResetCachedMaterial, CreateEffect (effectOptions idle_helpers m1 D)]
                 @ buildUniformLayout\<rparr>)"
    using dd by (simp add: getEffect_def Let_def D)
  have f: "isReadyForSubMesh idle_helpers sc u w =
      finish idle_helpers sc u D
        (?w2\<lparr>subMesh := (subMesh ?w2)\<lparr>drawWrapper_effect := Some 0, materialDefines := Some D\<rparr>,
              events := events ?w2 @ [ResetCachedMaterial, CreateEffect (effectOptions idle_helpers m1 D)]
                 @ buildUniformLayout\<rparr>)"
    using nofast by (simp add: isReadyForSubMesh_def Let_def p g)
  show ?thesis
    unfolding f by (simp add: finish_def store_defines_def)
qed


lemma reflection_defines_getv:
  assumes "enabled_texture (reflectionTexture m) (ReflectionTextureEnabled sc) = Some t"
    and "isReadyOrNotBlocking t"
    and "k \<notin> {''REFLECTION'', ''GAMMAREFLECTION'', ''RGBDREFLECTION'', ''REFLECTIONBLUR'',
               ''LODINREFLECTIONALPHA'', ''EQUIRECTANGULAR_RELFECTION_FOV'', ''REFLECTIONBGR'',
               ''INVERTCUBICMAP'', ''REFLECTIONMAP_3D'', ''REFLECTIONMAP_OPPOSITEZ'',
               ''REFLECTIONFRESNEL'', ''REFLECTIONFALLOFF''}"
  shows "getv k (snd (snd (reflection_defines sc m d))) =
           (if k = reflection_mode_define (coordinatesMode t) then B True else getv k d)"
  using assms
  by (simp add: reflection_defines_def Let_def)


lemma diffuse_defines_None_getv:
  assumes "enabled_texture (diffuseTexture m) (DiffuseTextureEnabled sc) = None"
    and "k \<notin> {''DIFFUSE'', ''DIFFUSEDIRECTUV'', ''DIFFUSEHASALPHA'', ''GAMMADIFFUSE'',
               ''OPACITYFRESNEL''}"
  shows "getv k (snd (diffuse_defines h sc m d)) = getv k d"
  using assms by (simp add: diffuse_defines_def)

lemma textures_common_getv:
  "k \<notin> {''PREMULTIPLYALPHA'', ''USERGBCOLOR'', ''NOISE''} \<Longrightarrow>
   getv k (textures_common m d) = getv k d"
  by (simp add: textures_common_def)


text \<open>The define set on which the diffuse block of the textures partition starts.\<close>

lemma texturesPartition_ok:
  assumes "areTexturesDirty d" and "texturesEnabled sc"
    and D0: "D0 = (if textureLOD sc then setv ''TEXTURELODSUPPORT'' (B True) (d\<lparr>needUVs := False\<rparr>)
                   else d\<lparr>needUVs := False\<rparr>)"
    and "fst (diffuse_defines h sc m D0)"
    and "fst (reflection_defines sc m (snd (diffuse_defines h sc m D0)))"
    and R: "R = reflection_defines sc m (snd (diffuse_defines h sc m D0))"
  shows "texturesPartition h sc m d =
           (True, fst (snd R), textures_common (fst (snd R)) (snd (snd R)))"
proof -
  obtain d1 where dd: "diffuse_defines h sc m D0 = (True, d1)"
    using assms(4) by (cases "diffuse_defines h sc m D0") auto
  obtain m2 d2 where rr: "reflection_defines sc m d1 = (True, m2, d2)"
    using assms(5) dd by (cases "reflection_defines sc m d1") auto
  show ?thesis
  proof (cases "textureLOD sc")
    case True
    with dd rr assms(1,2) show ?thesis
      by (simp add: texturesPartition_def Let_def D0 R)
  next
    case False
    with dd rr assms(1,2) show ?thesis
      by (simp add: texturesPartition_def Let_def D0 R)
  qed
qed

lemma getv_needUVs [simp]: "getv k (d\<lparr>needUVs := b\<rparr>) = getv k d"
  by (simp add: getv_def)

lemma getv_needNormals [simp]: "getv k (d\<lparr>needNormals := b\<rparr>) = getv k d"
  by (simp add: getv_def)

lemma getv_renderId [simp]: "getv k (d\<lparr>renderId := b\<rparr>) = getv k d"
  by (simp add: getv_def)

lemma submode_not_other:
  assumes "k \<in> set reflection_submode_defines"
  shows "k \<notin> {''REFLECTION'', ''GAMMAREFLECTION'', ''RGBDREFLECTION'', ''REFLECTIONBLUR'',
               ''LODINREFLECTIONALPHA'', ''EQUIRECTANGULAR_RELFECTION_FOV'', ''REFLECTIONBGR'',
               ''INVERTCUBICMAP'', ''REFLECTIONMAP_3D'', ''REFLECTIONMAP_OPPOSITEZ'',
               ''REFLECTIONFRESNEL'', ''REFLECTIONFALLOFF''}"
    and "k \<notin> {''DIFFUSE'', ''DIFFUSEDIRECTUV'', ''DIFFUSEHASALPHA'', ''GAMMADIFFUSE'',
               ''OPACITYFRESNEL''}"
    and "k \<notin> {''PREMULTIPLYALPHA'', ''USERGBCOLOR'', ''NOISE''}"
    and "k \<noteq> ''TEXTURELODSUPPORT''"
    and "k \<noteq> ''USEHIGHLIGHTANDSHADOWCOLORS''" and "k \<noteq> ''BACKMAT_SHADOWONLY''"
    and "k \<noteq> ''PROJECTED_GROUND''"
  using assms by (auto simp: reflection_submode_defines_def)

lemma texturesPartition_reflection_getv:
  assumes dirty: "areTexturesDirty d" and en: "texturesEnabled sc"
    and nodiff: "enabled_texture (diffuseTexture m) (DiffuseTextureEnabled sc) = None"
    and refl: "enabled_texture (reflectionTexture m) (ReflectionTextureEnabled sc) = Some t"
    and ready: "isReadyOrNotBlocking t"
    and k: "k \<in> set reflection_submode_defines"
  shows "getv k (snd (snd (texturesPartition h sc m d))) =
           (if k = reflection_mode_define (coordinatesMode t) then B True else getv k d)"
    and "fst (texturesPartition h sc m d)"
proof -
  define D0 where "D0 = (if textureLOD sc then setv ''TEXTURELODSUPPORT'' (B True) (d\<lparr>needUVs := False\<rparr>)
                   else d\<lparr>needUVs := False\<rparr>)"
  define D1 where "D1 = snd (diffuse_defines h sc m D0)"
  define R where "R = reflection_defines sc m D1"
  have okd: "fst (diffuse_defines h sc m D0)"
    by (simp add: diffuse_defines_fails nodiff blocking_def)
  have okr: "fst (reflection_defines sc m D1)"
    by (simp add: reflection_defines_fails refl blocking_def ready)
  have eq: "texturesPartition h sc m d =
           (True, fst (snd R), textures_common (fst (snd R)) (snd (snd R)))"
    using dirty en D0_def okd okr [unfolded D1_def] R_def [unfolded D1_def]
    by (rule texturesPartition_ok)
  have g0: "getv k D0 = getv k d"
    using submode_not_other(4) [OF k] by (simp add: D0_def)
  have g1: "getv k D1 = getv k D0"
    unfolding D1_def using nodiff submode_not_other(2) [OF k]
    by (rule diffuse_defines_None_getv)
  have g2: "getv k (snd (snd R)) =
      (if k = reflection_mode_define (coordinatesMode t) then B True else getv k D1)"
    unfolding R_def using refl ready submode_not_other(1) [OF k]
    by (rule reflection_defines_getv)
  have g3: "getv k (textures_common (fst (snd R)) (snd (snd R))) = getv k (snd (snd R))"
    using submode_not_other(3) [OF k] by (rule textures_common_getv)
  show "getv k (snd (snd (texturesPartition h sc m d))) =
           (if k = reflection_mode_define (coordinatesMode t) then B True else getv k d)"
    by (simp add: eq g3 g2 g1 g0)
  show "fst (texturesPartition h sc m d)" by (simp add: eq)
qed


lemma reflection_defines_nofresnel:
  "\<not> reflectionFresnel m \<Longrightarrow> fst (snd (reflection_defines sc m d)) = m"
  by (simp add: reflection_defines_def Let_def split: option.splits)

lemma isDirty_diffuse_idle [simp]:
  "isDirty (snd (diffuse_defines idle_helpers sc m d)) = isDirty d"
  by (simp add: diffuse_defines_def split: option.splits)

lemma isDirty_reflection [simp]:
  "isDirty (snd (snd (reflection_defines sc m d))) = isDirty d"
  by (simp add: reflection_defines_def Let_def split: option.splits)

lemma renderId_stages [simp]:
  "renderId (snd (diffuse_defines idle_helpers sc m d)) = renderId d"
  "renderId (snd (snd (reflection_defines sc m d))) = renderId d"
  "renderId (lightsPartition m d) = renderId d"
  "renderId (miscPartition m d) = renderId d"
  "renderId (textures_common m d) = renderId d"
  "renderId (markAsProcessed d) = renderId d"
  by (simp_all add: diffuse_defines_def reflection_defines_def Let_def lightsPartition_def
      miscPartition_def textures_common_def markAsProcessed_def split: option.splits)

lemma requested_keys_append [simp]:
  "requested_keys (xs @ ys) = requested_keys xs @ requested_keys ys"
  by (induction xs rule: requested_keys.induct) simp_all

lemma requested_keys_layout [simp]: "requested_keys buildUniformLayout = []"
  by (simp add: buildUniformLayout_def)

lemma defines_join_effectOptions [simp]: "defines_join (effectOptions h m d) = vals d"
  by (simp add: effectOptions_def toString_def Let_def split: prod.splits)

lemma getv_lights_misc_submode:
  assumes "k \<in> set reflection_submode_defines" and "k \<noteq> ''REFLECTIONMAP_SKYBOX''"
  shows "getv k (markAsProcessed (miscPartition m (lightsPartition m' d))) = getv k d"
  using submode_not_other(5,6,7) [OF assms(1)] assms(2)
  by (simp add: miscPartition_other lightsPartition_def)

text \<open>
  With the idle helpers: a dirty define set, no diffuse texture, a loaded reflection
  texture and no reflection Fresnel.
\<close>

lemma idle_reflection_call:
  assumes nofast: "\<not> frozen_fast_path u w"
    and dirty: "areTexturesDirty (entry_defines w)" "isDirty (entry_defines w)"
    and en: "texturesEnabled sc" "ReflectionTextureEnabled sc"
    and nodiff: "diffuseTexture (the_material w) = None"
    and refl: "reflectionTexture (the_material w) = Some t" "isReadyOrNotBlocking t"
    and nofresnel: "\<not> reflectionFresnel (the_material w)"
  shows "\<exists>D. isReadyForSubMesh idle_helpers sc u w =
     (True,
      w\<lparr>subMesh := (subMesh w)\<lparr>
          materialDefines := Some D,
          drawWrapper_effect := Some 0,
          wasPreviouslyReady := True,
          wasPreviouslyUsingInstances := Some u\<rparr>,
        events := events w @ [ResetCachedMaterial,
                    CreateEffect (effectOptions idle_helpers (the_material w)
                                    (D\<lparr>renderId := renderId (entry_defines w)\<rparr>))]
                   @ buildUniformLayout @ [CheckScenePerformancePriority]\<rparr>)
     \<and> (\<forall>k \<in> set reflection_submode_defines. k \<noteq> ''REFLECTIONMAP_SKYBOX'' \<longrightarrow>
           getv k D = (if k = reflection_mode_define (coordinatesMode t) then B True
                       else getv k (entry_defines w)))"
proof -
  let ?m = "the_material w"
  let ?d0 = "entry_defines w\<lparr>needNormals := True\<rparr>"
  let ?T = "texturesPartition idle_helpers sc ?m ?d0"
  have d0: "areTexturesDirty ?d0" using dirty(1) by simp
  have nd: "enabled_texture (diffuseTexture ?m) (DiffuseTextureEnabled sc) = None"
    by (simp add: enabled_texture_def nodiff)
  have rf: "enabled_texture (reflectionTexture ?m) (ReflectionTextureEnabled sc) = Some t"
    by (simp add: enabled_texture_def refl en)
  note tg = texturesPartition_reflection_getv [OF d0 en(1) nd rf refl(2)]
  define D0 where "D0 = (if textureLOD sc then setv ''TEXTURELODSUPPORT'' (B True) (?d0\<lparr>needUVs := False\<rparr>)
                   else ?d0\<lparr>needUVs := False\<rparr>)"
  define R where "R = reflection_defines sc ?m (snd (diffuse_defines idle_helpers sc ?m D0))"
  have okd: "fst (diffuse_defines idle_helpers sc ?m D0)"
    by (simp add: diffuse_defines_fails nd blocking_def)
  have okr: "fst (reflection_defines sc ?m (snd (diffuse_defines idle_helpers sc ?m D0)))"
    by (simp add: reflection_defines_fails rf blocking_def refl(2))
  have Teq: "?T = (True, fst (snd R), textures_common (fst (snd R)) (snd (snd R)))"
    using d0 en(1) D0_def okd okr R_def by (rule texturesPartition_ok)
  have m1: "fst (snd R) = ?m"
    unfolding R_def using nofresnel by (rule reflection_defines_nofresnel)
  define d1 where "d1 = textures_common ?m (snd (snd R))"
  have Teq': "?T = (True, ?m, d1)"
    using Teq by (simp add: m1 d1_def)
  have "isDirty D0" using dirty(2) by (simp add: D0_def)
  then have dirty1: "isDirty d1"
    by (simp add: d1_def R_def)
  define D where "D = markAsProcessed (miscPartition ?m (lightsPartition ?m d1))"
  have rid: "renderId D = renderId (entry_defines w)"
    by (simp add: D_def d1_def R_def D0_def)
  have call: "isReadyForSubMesh idle_helpers sc u w =
     (True,
      w\<lparr>the_material := ?m,
        subMesh := (subMesh w)\<lparr>
          materialDefines := Some (D\<lparr>renderId := Some (getRenderId sc)\<rparr>),
          drawWrapper_effect := Some 0,
          wasPreviouslyReady := True,
          wasPreviouslyUsingInstances := Some u\<rparr>,
        events := events w @ [ResetCachedMaterial, CreateEffect (effectOptions idle_helpers ?m D)]
                   @ buildUniformLayout @ [CheckScenePerformancePriority]\<rparr>)"
    using nofast Teq' dirty1 D_def by (rule idle_dirty_call)
  have Did: "D\<lparr>renderId := Some (getRenderId sc), renderId := renderId (entry_defines w)\<rparr> = D"
    using rid by simp
  have vals: "\<forall>k \<in> set reflection_submode_defines. k \<noteq> ''REFLECTIONMAP_SKYBOX'' \<longrightarrow>
           getv k (D\<lparr>renderId := Some (getRenderId sc)\<rparr>) =
             (if k = reflection_mode_define (coordinatesMode t) then B True
              else getv k (entry_defines w))"
  proof (intro ballI impI)
    fix k assume k: "k \<in> set reflection_submode_defines" "k \<noteq> ''REFLECTIONMAP_SKYBOX''"
    have "getv k D = getv k d1"
      unfolding D_def using k by (rule getv_lights_misc_submode)
    also have "\<dots> = getv k (snd (snd ?T))" by (simp add: Teq')
    also have "\<dots> = (if k = reflection_mode_define (coordinatesMode t) then B True
              else getv k ?d0)"
      using k(1) by (rule tg(1))
    finally show "getv k (D\<lparr>renderId := Some (getRenderId sc)\<rparr>) =
             (if k = reflection_mode_define (coordinatesMode t) then B True
              else getv k (entry_defines w))"
      by simp
  qed
  show ?thesis
    apply (rule exI [of _ "D\<lparr>renderId := Some (getRenderId sc)\<rparr>"])
    using call vals Did by simp
qed


lemma new_defines_flags [simp]:
  "areTexturesDirty new_BackgroundMaterialDefines"
  "isDirty new_BackgroundMaterialDefines"
  "areLightsDirty new_BackgroundMaterialDefines"
  by (simp_all add: new_BackgroundMaterialDefines_def new_MaterialDefines_def)

lemma new_material_fields:
  "diffuseTexture new_material = None"
  "\<not> reflectionFresnel new_material"
  "\<not> isFrozen new_material"
  by (simp_all add: new_material_eq field_initialisers_def base_material_def)

lemma getv_new_submodes:
  "getv ''REFLECTIONMAP_PLANAR'' new_BackgroundMaterialDefines = B False"
  "getv ''REFLECTIONMAP_SPHERICAL'' new_BackgroundMaterialDefines = B False"
  by (simp_all add: new_BackgroundMaterialDefines_def BackgroundMaterialDefines_fields_def)

lemma submodes_mem:
  "''REFLECTIONMAP_PLANAR'' \<in> set reflection_submode_defines"
  "''REFLECTIONMAP_SPHERICAL'' \<in> set reflection_submode_defines"
  by (simp_all add: reflection_submode_defines_def)

lemma planar_frame_result:
  "\<exists>D. planar_frame =
     (True,
      \<lparr>the_material = new_material\<lparr>reflectionTexture := Some planar_texture\<rparr>,
       subMesh = new_submesh\<lparr>materialDefines := Some D, drawWrapper_effect := Some 0,
                   wasPreviouslyReady := True, wasPreviouslyUsingInstances := Some False\<rparr>,
       the_mesh = None,
       events = [ResetCachedMaterial,
                 CreateEffect (effectOptions idle_helpers
                    (new_material\<lparr>reflectionTexture := Some planar_texture\<rparr>)
                    (D\<lparr>renderId := None\<rparr>))]
                 @ buildUniformLayout @ [CheckScenePerformancePriority]\<rparr>)
     \<and> getv ''REFLECTIONMAP_PLANAR'' D = B True
     \<and> getv ''REFLECTIONMAP_SPHERICAL'' D = B False"
proof -
  let ?w = "set_reflectionTexture (Some planar_texture) new_world"
  have w: "?w = \<lparr>the_material = new_material\<lparr>reflectionTexture := Some planar_texture\<rparr>,
       subMesh = new_submesh, the_mesh = None, events = []\<rparr>"
    by (simp add: set_reflectionTexture_def markAllSubMeshesAsTexturesDirty_def new_world_def
        new_submesh_def)
  have e: "entry_defines ?w = new_BackgroundMaterialDefines"
    by (simp add: w entry_defines_def new_submesh_def)
  have nofast: "\<not> frozen_fast_path False ?w"
    by (simp add: w frozen_fast_path_def new_submesh_def)
  have sc: "texturesEnabled example_scene" "ReflectionTextureEnabled example_scene"
    by (simp_all add: example_scene_def)
  have m: "diffuseTexture (the_material ?w) = None"
      "reflectionTexture (the_material ?w) = Some planar_texture"
      "\<not> reflectionFresnel (the_material ?w)"
    by (simp_all add: w new_material_fields)
  have t: "isReadyOrNotBlocking planar_texture" "coordinatesMode planar_texture = PLANAR_MODE"
    by (simp_all add: planar_texture_def)
  have rid: "renderId (entry_defines ?w) = None"
    by (simp add: e new_BackgroundMaterialDefines_def new_MaterialDefines_def)
  from idle_reflection_call [of False ?w example_scene planar_texture,
      OF nofast _ _ sc m(1,2) t(1) m(3)]
  obtain D where D: "isReadyForSubMesh idle_helpers example_scene False ?w =
     (True,
      ?w\<lparr>subMesh := (subMesh ?w)\<lparr>
          materialDefines := Some D,
          drawWrapper_effect := Some 0,
          wasPreviouslyReady := True,
          wasPreviouslyUsingInstances := Some False\<rparr>,
        events := events ?w @ [ResetCachedMaterial,
                    CreateEffect (effectOptions idle_helpers (the_material ?w)
                                    (D\<lparr>renderId := renderId (entry_defines ?w)\<rparr>))]
                   @ buildUniformLayout @ [CheckScenePerformancePriority]\<rparr>)"
    and G: "\<forall>k \<in> set reflection_submode_defines. k \<noteq> ''REFLECTIONMAP_SKYBOX'' \<longrightarrow>
           getv k D = (if k = reflection_mode_define (coordinatesMode planar_texture) then B True
                       else getv k (entry_defines ?w))"
    unfolding e by auto
  have g1: "getv ''REFLECTIONMAP_PLANAR'' D = B True"
    using G submodes_mem(1) by (simp add: t(2))
  have g2: "getv ''REFLECTIONMAP_SPHERICAL'' D = B False"
    using G submodes_mem(2) by (simp add: t(2) e getv_new_submodes)
  show ?thesis
    apply (rule exI [of _ D])
    using D g1 g2 unfolding planar_frame_def rid
    by (simp add: w)
qed


lemma key_value_vals [simp]: "key_value k (vals d) = getv k d"
  by (simp add: key_value_def getv_def)

lemma vals_renderId [simp]: "vals (d\<lparr>renderId := r\<rparr>) = vals d"
  by simp


lemma detach_observer_empty:
  assumes "at_most_one_observer m os"
  shows "onUpdateParameters (detach_observer m os) c = []"
  using assms [unfolded at_most_one_observer_def, rule_format, of c]
  by (auto simp: detach_observer_def observable_remove_def split: jsref.splits option.splits)

lemma empty_at_most_one:
  "(\<And>c. onUpdateParameters os c = []) \<Longrightarrow> at_most_one_observer m os"
  by (simp add: at_most_one_observer_def)

lemma attach_observer_at_most_one:
  assumes "\<And>c. onUpdateParameters os c = []"
    and "attach_observer m os = (m', os')"
  shows "at_most_one_observer m' os'"
proof (cases "imageProcessingConfiguration m")
  case (Ref k)
  with assms(2) have "m' = m\<lparr>imageProcessingObserver := Some (created os)\<rparr>"
    and "onUpdateParameters os' = (onUpdateParameters os)(k := [created os])"
    by (auto simp: attach_observer_def observable_add_def assms(1))
  with Ref show ?thesis
    by (simp add: at_most_one_observer_def assms(1))
next
  case Undefined
  with assms(2) have "os' = os" by (simp add: attach_observer_def)
  then show ?thesis by (simp add: at_most_one_observer_def assms(1))
next
  case Null
  with assms(2) have "os' = os" by (simp add: attach_observer_def)
  then show ?thesis by (simp add: at_most_one_observer_def assms(1))
qed

lemma attach_keeps_invariant:
  assumes "at_most_one_observer m os"
    and "attachImageProcessingConfiguration sc c (m, os) = (m', os')"
  shows "at_most_one_observer m' os'"
proof (cases "c = imageProcessingConfiguration m")
  case True
  with assms show ?thesis by (simp add: attachImageProcessingConfiguration_def)
next
  case False
  with assms(2) have "attach_observer (m\<lparr>imageProcessingConfiguration := pick_configuration sc c\<rparr>)
      (detach_observer m os) = (m', os')"
    by (simp add: attachImageProcessingConfiguration_def Let_def)
  with detach_observer_empty [OF assms(1)] show ?thesis
    by (rule attach_observer_at_most_one)
qed

lemma dispose_keeps_invariant:
  assumes "at_most_one_observer m os" and "dispose (m, os) = (m', os')"
  shows "at_most_one_observer m' os'"
  using assms(2) detach_observer_empty [OF assms(1)]
  by (auto simp: dispose_def intro: empty_at_most_one)

lemma ipc_step_keeps_invariant:
  assumes "at_most_one_observer (the_material w) os"
    and "ipc_step sc call (w, os) = (w', os')"
  shows "at_most_one_observer (the_material w') os'"
proof (cases call)
  case (Attach c)
  obtain m1 os1 where a: "attachImageProcessingConfiguration sc c (the_material w, os) = (m1, os1)"
    by (cases "attachImageProcessingConfiguration sc c (the_material w, os)") auto
  with assms(2) Attach have "the_material w' = m1" "os' = os1" by auto
  with attach_keeps_invariant [OF assms(1) a] show ?thesis by simp
next
  case (Assign c)
  obtain m1 os1 where a: "attachImageProcessingConfiguration sc c (the_material w, os) = (m1, os1)"
    by (cases "attachImageProcessingConfiguration sc c (the_material w, os)") auto
  with assms(2) Assign have "the_material w' = m1" "os' = os1"
    by (auto simp: set_imageProcessingConfiguration_def markAllSubMeshesAsTexturesDirty_def)
  with attach_keeps_invariant [OF assms(1) a] show ?thesis by simp
next
  case Dispose
  obtain m1 os1 where a: "dispose (the_material w, os) = (m1, os1)"
    by (cases "dispose (the_material w, os)") auto
  with assms(2) Dispose have "the_material w' = m1" "os' = os1" by auto
  with dispose_keeps_invariant [OF assms(1) a] show ?thesis by simp
qed

lemma fold_ipc_step_keeps_invariant:
  "at_most_one_observer (the_material (fst s)) (snd s) \<Longrightarrow>
   at_most_one_observer (the_material (fst (fold (ipc_step sc) calls s)))
     (snd (fold (ipc_step sc) calls s))"
proof (induction calls arbitrary: s)
  case Nil
  then show ?case by simp
next
  case (Cons call calls)
  obtain w os where s: "s = (w, os)" by (cases s)
  obtain w' os' where st: "ipc_step sc call (w, os) = (w', os')"
    by (cases "ipc_step sc call (w, os)")
  from Cons.prems s have "at_most_one_observer (the_material w) os" by simp
  from ipc_step_keeps_invariant [OF this st]
  have "at_most_one_observer (the_material (fst (w', os'))) (snd (w', os'))" by simp
  from Cons.IH [OF this] show ?case by (simp add: s st)
qed

lemma constructed_invariant:
  "at_most_one_observer (the_material (fst (constructed sc w))) (snd (constructed sc w))"
proof -
  obtain m os where c: "constructor sc (the_material w) no_observers = (m, os)"
    by (cases "constructor sc (the_material w) no_observers")
  have "at_most_one_observer (field_initialisers (the_material w)) no_observers"
    by (simp add: at_most_one_observer_def no_observers_def)
  from attach_keeps_invariant [OF this c [unfolded constructor_def]]
  show ?thesis by (simp add: constructed_def c)
qed


lemma constructed_new_world:
  "constructed example_scene new_world =
     (new_world\<lparr>the_material := new_material\<lparr>imageProcessingConfiguration := Ref 0,
                                              imageProcessingObserver := Some 0\<rparr>\<rparr>,
      \<lparr>onUpdateParameters = (\<lambda>_. [])(0 := [0]), created = 1\<rparr>)"
  by (simp add: constructed_def constructor_def attachImageProcessingConfiguration_def
      new_world_def new_material_eq field_initialisers_def detach_observer_def
      pick_configuration_def example_scene_def attach_observer_def observable_add_def
      no_observers_def Let_def)

lemma example_scene_ipc [simp]: "scene_imageProcessingConfiguration example_scene = Ref 0"
  by (simp add: example_scene_def)

lemma attach_calls_result:
  "map (onUpdateParameters (snd (fold (ipc_step example_scene) attach_calls
          (constructed example_scene new_world)))) [0, 1, 2] = [[], [], [3]]"
  "imageProcessingObserver (the_material (fst (fold (ipc_step example_scene) attach_calls
          (constructed example_scene new_world)))) = Some 3"
  "imageProcessingConfiguration (the_material (fst (fold (ipc_step example_scene) attach_calls
          (constructed example_scene new_world)))) = Ref 2"
  unfolding constructed_new_world attach_calls_def
  by (simp_all add: set_imageProcessingConfiguration_def markAllSubMeshesAsTexturesDirty_def
      attachImageProcessingConfiguration_def detach_observer_def
      pick_configuration_def attach_observer_def observable_add_def
      observable_remove_def Let_def)



lemma lights_view_fog_block_no_upload [simp]:
  "filter is_uniform_upload (lights_view_fog_block sc m) = []"
  "filter is_setTexture (lights_view_fog_block sc m) = []"
  by (simp_all add: lights_view_fog_block_def)

lemma uniform_block_no_setTexture [simp]:
  "filter is_setTexture (uniform_block sc m sm d) = []"
  by (simp add: uniform_block_def split: option.splits)




lemma example_scene_textures [simp]:
  "texturesEnabled example_scene" "DiffuseTextureEnabled example_scene"
  "ReflectionTextureEnabled example_scene"
  by (simp_all add: example_scene_def)



lemma own_fallbacks_cases:
  "own_fallbacks d =
     (if truthy (getv ''FOG'' d) then [(0, ''FOG'')] else [])
     @ (if truthy (getv ''POINTSIZE'' d) then [(1, ''POINTSIZE'')] else [])
     @ (if truthy (getv ''MULTIVIEW'' d) then [(0, ''MULTIVIEW'')] else [])"
  by (simp add: own_fallbacks_def addFallback_def Let_def)

lemma effect_fallbacks_effectOptions:
  "effect_fallbacks (effectOptions h m d) =
     snd (PrepareAttributesForBones h d (base_attribs d, build_fallbacks h m d))"
  by (simp add: effectOptions_def Let_def split: prod.splits)

lemma foggy_facts:
  "truthy (getv ''FOG'' foggy_defines)" "truthy (getv ''POINTSIZE'' foggy_defines)"
  "truthy (getv ''MULTIVIEW'' foggy_defines)" "isDirty foggy_defines"
  by (simp_all add: foggy_defines_def)

lemma idle_fallback_helpers [simp]:
  "HandleFallbacksForShadows idle_helpers d n fb = fb"
  "PrepareAttributesForBones idle_helpers d p = p"
  by (simp_all add: idle_helpers_def)


lemma requested_keys_createNormals [simp]:
  "requested_keys (snd (createNormals sc b ms)) = []"
  by (simp add: createNormals_def split: option.splits)




lemma flags_stages_idle [simp]:
  "areLightsDirty (snd (diffuse_defines idle_helpers sc m d)) = areLightsDirty d"
  "areLightsDirty (snd (snd (reflection_defines sc m d))) = areLightsDirty d"
  "areLightsDirty (textures_common m d) = areLightsDirty d"
  "areLightsDirty (markAsProcessed d) = False"
  by (simp_all add: diffuse_defines_def reflection_defines_def Let_def textures_common_def
      markAsProcessed_def split: option.splits)

lemma reflection_defines_None:
  "enabled_texture (reflectionTexture m) (ReflectionTextureEnabled sc) = None \<Longrightarrow>
   fst (snd (reflection_defines sc m d)) = m"
  by (simp add: reflection_defines_def)

lemma clean_markAsProcessed [simp]:
  "clean (markAsProcessed d)" "clean (markAsProcessed d\<lparr>renderId := r\<rparr>)"
  by (simp_all add: clean_def markAsProcessed_def)

text \<open>With the idle helpers: a new define set and a material without textures.\<close>

lemma idle_plain_call:
  assumes nofast: "\<not> frozen_fast_path u w"
    and dirty: "areTexturesDirty (entry_defines w)" "isDirty (entry_defines w)"
      "areLightsDirty (entry_defines w)"
    and en: "texturesEnabled sc"
    and notex: "diffuseTexture (the_material w) = None" "reflectionTexture (the_material w) = None"
  shows "\<exists>D. isReadyForSubMesh idle_helpers sc u w =
     (True,
      w\<lparr>subMesh := (subMesh w)\<lparr>
          materialDefines := Some D,
          drawWrapper_effect := Some 0,
          wasPreviouslyReady := True,
          wasPreviouslyUsingInstances := Some u\<rparr>,
        events := events w @ [ResetCachedMaterial,
                    CreateEffect (effectOptions idle_helpers (the_material w)
                                    (D\<lparr>renderId := renderId (entry_defines w)\<rparr>))]
                   @ buildUniformLayout @ [CheckScenePerformancePriority]\<rparr>)
     \<and> clean D
     \<and> getv ''USEHIGHLIGHTANDSHADOWCOLORS'' D =
         B (\<not> useRGBColor (the_material w) \<and>
            (js_strict_ne (primaryColorShadowLevel (the_material w)) (Fin 0) \<or>
             js_strict_ne (primaryColorHighlightLevel (the_material w)) (Fin 0)))"
proof -
  let ?m = "the_material w"
  let ?d0 = "entry_defines w\<lparr>needNormals := True\<rparr>"
  let ?T = "texturesPartition idle_helpers sc ?m ?d0"
  have d0: "areTexturesDirty ?d0" using dirty(1) by simp
  have nd: "enabled_texture (diffuseTexture ?m) (DiffuseTextureEnabled sc) = None"
    by (simp add: enabled_texture_def notex)
  have nr: "enabled_texture (reflectionTexture ?m) (ReflectionTextureEnabled sc) = None"
    by (simp add: enabled_texture_def notex)
  define D0 where "D0 = (if textureLOD sc then setv ''TEXTURELODSUPPORT'' (B True) (?d0\<lparr>needUVs := False\<rparr>)
                   else ?d0\<lparr>needUVs := False\<rparr>)"
  define R where "R = reflection_defines sc ?m (snd (diffuse_defines idle_helpers sc ?m D0))"
  have okd: "fst (diffuse_defines idle_helpers sc ?m D0)"
    by (simp add: diffuse_defines_fails nd blocking_def)
  have okr: "fst (reflection_defines sc ?m (snd (diffuse_defines idle_helpers sc ?m D0)))"
    by (simp add: reflection_defines_fails nr blocking_def)
  have Teq: "?T = (True, fst (snd R), textures_common (fst (snd R)) (snd (snd R)))"
    using d0 en D0_def okd okr R_def by (rule texturesPartition_ok)
  have m1: "fst (snd R) = ?m"
    unfolding R_def using nr by (rule reflection_defines_None)
  define d1 where "d1 = textures_common ?m (snd (snd R))"
  have Teq': "?T = (True, ?m, d1)"
    using Teq by (simp add: m1 d1_def)
  have "isDirty D0" "areLightsDirty D0" using dirty(2,3) by (simp_all add: D0_def)
  then have dirty1: "isDirty d1" "areLightsDirty d1"
    by (simp_all add: d1_def R_def)
  define D where "D = markAsProcessed (miscPartition ?m (lightsPartition ?m d1))"
  have rid: "renderId D = renderId (entry_defines w)"
    by (simp add: D_def d1_def R_def D0_def)
  have call: "isReadyForSubMesh idle_helpers sc u w =
     (True,
      w\<lparr>the_material := ?m,
        subMesh := (subMesh w)\<lparr>
          materialDefines := Some (D\<lparr>renderId := Some (getRenderId sc)\<rparr>),
          drawWrapper_effect := Some 0,
          wasPreviouslyReady := True,
          wasPreviouslyUsingInstances := Some u\<rparr>,
        events := events w @ [ResetCachedMaterial, CreateEffect (effectOptions idle_helpers ?m D)]
                   @ buildUniformLayout @ [CheckScenePerformancePriority]\<rparr>)"
    using nofast Teq' dirty1(1) D_def by (rule idle_dirty_call)
  have Did: "D\<lparr>renderId := Some (getRenderId sc), renderId := renderId (entry_defines w)\<rparr> = D"
    using rid by simp
  have "getv ''USEHIGHLIGHTANDSHADOWCOLORS'' D =
      getv ''USEHIGHLIGHTANDSHADOWCOLORS'' (lightsPartition ?m d1)"
    by (simp add: D_def miscPartition_other)
  also have "\<dots> = B (\<not> useRGBColor ?m \<and>
            (js_strict_ne (primaryColorShadowLevel ?m) (Fin 0) \<or>
             js_strict_ne (primaryColorHighlightLevel ?m) (Fin 0)))"
    using dirty1(2) by (rule lightsPartition_highlight)
  finally have hl: "getv ''USEHIGHLIGHTANDSHADOWCOLORS'' (D\<lparr>renderId := Some (getRenderId sc)\<rparr>) =
      B (\<not> useRGBColor ?m \<and>
            (js_strict_ne (primaryColorShadowLevel ?m) (Fin 0) \<or>
             js_strict_ne (primaryColorHighlightLevel ?m) (Fin 0)))"
    by simp
  have cl: "clean (D\<lparr>renderId := Some (getRenderId sc)\<rparr>)"
    by (simp add: D_def)
  show ?thesis
    apply (rule exI [of _ "D\<lparr>renderId := Some (getRenderId sc)\<rparr>"])
    using call hl cl Did by simp
qed


lemma grey_frame_result:
  "\<exists>D. fst grey_frame
      \<and> the_material (snd grey_frame) = new_material\<lparr>useRGBColor := False\<rparr>
      \<and> subMesh (snd grey_frame) =
          new_submesh\<lparr>materialDefines := Some D, drawWrapper_effect := Some 0,
                      wasPreviouslyReady := True, wasPreviouslyUsingInstances := Some False\<rparr>
      \<and> clean D \<and> getv ''USEHIGHLIGHTANDSHADOWCOLORS'' D = B False"
proof -
  let ?w = "new_world\<lparr>the_material := new_material\<lparr>useRGBColor := False\<rparr>\<rparr>"
  have e: "entry_defines ?w = new_BackgroundMaterialDefines"
    by (simp add: entry_defines_def new_world_def new_submesh_def)
  have nofast: "\<not> frozen_fast_path False ?w"
    by (simp add: frozen_fast_path_def new_world_def new_submesh_def)
  have m: "diffuseTexture (the_material ?w) = None" "reflectionTexture (the_material ?w) = None"
    by (simp_all add: new_material_eq field_initialisers_def)
  have lv: "primaryColorShadowLevel (the_material ?w) = Fin 0"
      "primaryColorHighlightLevel (the_material ?w) = Fin 0"
    by (simp_all add: new_material_eq field_initialisers_def)
  from idle_plain_call [of False ?w example_scene, OF nofast _ _ _ _ m]
  obtain D where D: "isReadyForSubMesh idle_helpers example_scene False ?w =
     (True,
      ?w\<lparr>subMesh := (subMesh ?w)\<lparr>
          materialDefines := Some D,
          drawWrapper_effect := Some 0,
          wasPreviouslyReady := True,
          wasPreviouslyUsingInstances := Some False\<rparr>,
        events := events ?w @ [ResetCachedMaterial,
                    CreateEffect (effectOptions idle_helpers (the_material ?w)
                                    (D\<lparr>renderId := renderId (entry_defines ?w)\<rparr>))]
                   @ buildUniformLayout @ [CheckScenePerformancePriority]\<rparr>)"
    and c: "clean D"
    and g: "getv ''USEHIGHLIGHTANDSHADOWCOLORS'' D =
         B (\<not> useRGBColor (the_material ?w) \<and>
            (js_strict_ne (primaryColorShadowLevel (the_material ?w)) (Fin 0) \<or>
             js_strict_ne (primaryColorHighlightLevel (the_material ?w)) (Fin 0)))"
    unfolding e by auto
  have g': "getv ''USEHIGHLIGHTANDSHADOWCOLORS'' D = B False"
    unfolding g lv by (simp add: js_strict_ne_def)
  show ?thesis
    apply (rule exI [of _ D])
    using D c g' unfolding grey_frame_def
    by (simp add: new_world_def)
qed

lemma relit_world_result:
  "\<exists>D. the_material relit_world =
        new_material\<lparr>useRGBColor := False, primaryColorShadowLevel := Fin (1 / 2)\<rparr>
      \<and> subMesh relit_world =
          new_submesh\<lparr>materialDefines := Some (markAsImageProcessingDirty (markAsLightDirty D)),
                      drawWrapper_effect := Some 0,
                      wasPreviouslyReady := True, wasPreviouslyUsingInstances := Some False\<rparr>
      \<and> clean D \<and> getv ''USEHIGHLIGHTANDSHADOWCOLORS'' D = B False"
proof -
  from grey_frame_result obtain D where
    "the_material (snd grey_frame) = new_material\<lparr>useRGBColor := False\<rparr>"
    "subMesh (snd grey_frame) =
          new_submesh\<lparr>materialDefines := Some D, drawWrapper_effect := Some 0,
                      wasPreviouslyReady := True, wasPreviouslyUsingInstances := Some False\<rparr>"
    "clean D" "getv ''USEHIGHLIGHTANDSHADOWCOLORS'' D = B False"
    by blast
  then show ?thesis
    apply (intro exI [of _ D])
    by (simp add: relit_world_def onUpdateParameters_observer_def
        set_primaryColorShadowLevel_def markAllSubMeshesAsLightsDirty_def
        markAllSubMeshesAsImageProcessingDirty_def new_submesh_def)
qed

lemma relit_material:
  "the_material relit_world =
     new_material\<lparr>useRGBColor := False, primaryColorShadowLevel := Fin (1 / 2)\<rparr>"
  using relit_world_result by blast

lemma relit_world_facts:
  "\<not> frozen_fast_path False relit_world"
  "drawWrapper_effect (subMesh relit_world) = Some 0"
  "wasPreviouslyReady (subMesh relit_world)"
  "materialDefines (subMesh relit_world) = Some (entry_defines relit_world)"
proof -
  from relit_world_result obtain D where
    s: "subMesh relit_world =
          new_submesh\<lparr>materialDefines := Some (markAsImageProcessingDirty (markAsLightDirty D)),
                      drawWrapper_effect := Some 0,
                      wasPreviouslyReady := True, wasPreviouslyUsingInstances := Some False\<rparr>"
    by blast
  show "\<not> frozen_fast_path False relit_world"
    by (simp add: frozen_fast_path_def relit_material new_material_eq field_initialisers_def
        base_material_def)
  show "drawWrapper_effect (subMesh relit_world) = Some 0" by (simp add: s)
  show "wasPreviouslyReady (subMesh relit_world)" by (simp add: s)
  show "materialDefines (subMesh relit_world) = Some (entry_defines relit_world)"
    by (simp add: s entry_defines_def)
qed

lemma relit_stored: "store_defines (entry_defines relit_world) relit_world = relit_world"
  using relit_world_facts(4) by (simp add: store_defines_def)

lemma relit_before:
  "map_option (getv ''USEHIGHLIGHTANDSHADOWCOLORS'') (materialDefines (subMesh relit_world))
       = Some (B False)"
  using relit_world_result by auto

lemma relit_flags:
  "\<not> areTexturesDirty (entry_defines relit_world)"
  "areLightsDirty (entry_defines relit_world)"
  "areImageProcessingDirty (entry_defines relit_world)"
proof -
  from relit_world_result obtain D where
    s: "subMesh relit_world =
          new_submesh\<lparr>materialDefines := Some (markAsImageProcessingDirty (markAsLightDirty D)),
                      drawWrapper_effect := Some 0,
                      wasPreviouslyReady := True, wasPreviouslyUsingInstances := Some False\<rparr>"
    and c: "clean D"
    by blast
  have e: "entry_defines relit_world = markAsImageProcessingDirty (markAsLightDirty D)"
    by (simp add: s entry_defines_def)
  show "\<not> areTexturesDirty (entry_defines relit_world)"
    using c by (simp add: e clean_def markAsImageProcessingDirty_def markAsLightDirty_def)
  show "areLightsDirty (entry_defines relit_world)"
    by (simp add: e markAsImageProcessingDirty_def markAsLightDirty_def)
  show "areImageProcessingDirty (entry_defines relit_world)"
    by (simp add: e markAsImageProcessingDirty_def markAsLightDirty_def)
qed

lemma relit_refresh_fails: "refresh_fails loading_helpers example_scene relit_world"
proof -
  have "image_processing_not_ready loading_helpers (the_material relit_world)
     (entry_defines relit_world\<lparr>needNormals := True\<rparr>)"
    using relit_flags(3)
    by (simp add: image_processing_not_ready_def relit_material new_material_eq
        loading_helpers_def)
  then show ?thesis
    using relit_flags(1)
    by (simp add: refresh_fails_def Let_def lights_and_multiview_def loading_helpers_def
        idle_helpers_def texturesPartition_def)
qed

lemma relit_flags':
  "areLightsDirty (entry_defines relit_world\<lparr>needNormals := True\<rparr>)"
  "areImageProcessingDirty (entry_defines relit_world\<lparr>needNormals := True\<rparr>)"
  using relit_flags by simp_all

lemma relit_tex:
  "prepareDefines_textures loading_helpers example_scene (entry_defines relit_world)
     (store_defines (entry_defines relit_world) relit_world)
   = (True, entry_defines relit_world\<lparr>needNormals := True\<rparr>,
      store_defines (entry_defines relit_world\<lparr>needNormals := True\<rparr>) relit_world)"
  using relit_flags(1)
  by (simp add: prepareDefines_textures_def lights_and_multiview_def loading_helpers_def
      idle_helpers_def texturesPartition_def store_defines_def Let_def)

lemma relit_rest:
  "prepareDefines_rest loading_helpers example_scene False
     (entry_defines relit_world\<lparr>needNormals := True\<rparr>)
     (store_defines (entry_defines relit_world\<lparr>needNormals := True\<rparr>) relit_world)
   = (False,
      lightsPartition (the_material relit_world) (entry_defines relit_world\<lparr>needNormals := True\<rparr>),
      store_defines
        (lightsPartition (the_material relit_world) (entry_defines relit_world\<lparr>needNormals := True\<rparr>))
        relit_world)"
proof -
  have "imageProcessingPartition loading_helpers (the_material relit_world)
          (lightsPartition (the_material relit_world)
             (entry_defines relit_world\<lparr>needNormals := True\<rparr>))
        = (False, lightsPartition (the_material relit_world)
             (entry_defines relit_world\<lparr>needNormals := True\<rparr>))"
    using relit_flags'(2)
    by (simp add: imageProcessingPartition_def relit_material new_material_eq loading_helpers_def
        idle_helpers_def lightsPartition_def)
  then show ?thesis
    by (simp add: prepareDefines_rest_def Let_def store_defines_def)
qed

lemma relit_call:
  "isReadyForSubMesh loading_helpers example_scene False relit_world =
     (False,
      store_defines
        (lightsPartition (the_material relit_world) (entry_defines relit_world\<lparr>needNormals := True\<rparr>))
        relit_world)"
proof -
  have "\<not> push_isReadyForSubMesh loading_helpers
      (subMesh (store_defines (entry_defines relit_world) relit_world))"
    by (simp add: loading_helpers_def idle_helpers_def)
  then show ?thesis
    using relit_world_facts(1)
    by (simp add: isReadyForSubMesh_def prepareDefines_def Let_def relit_tex relit_rest)
qed

lemma relit_after:
  "getv ''USEHIGHLIGHTANDSHADOWCOLORS''
     (lightsPartition (the_material relit_world)
        (entry_defines relit_world\<lparr>needNormals := True\<rparr>)) = B True"
  unfolding lightsPartition_highlight [OF relit_flags'(1)]
  by (simp add: relit_material new_material_eq js_strict_ne_def)

lemma spherical_frame_world:
  "fst planar_frame \<and> fst spherical_frame
   \<and> map_option coordinatesMode (reflectionTexture (the_material (snd spherical_frame)))
        = Some SPHERICAL_MODE
   \<and> map (key_value ''REFLECTIONMAP_PLANAR'') (requested_keys (events (snd spherical_frame)))
        = [B True, B True]
   \<and> map (key_value ''REFLECTIONMAP_SPHERICAL'') (requested_keys (events (snd spherical_frame)))
        = [B False, B True]
   \<and> map_option (getv ''REFLECTIONMAP_PLANAR'') (materialDefines (subMesh (snd spherical_frame)))
        = Some (B True)
   \<and> map_option (getv ''REFLECTIONMAP_SPHERICAL'') (materialDefines (subMesh (snd spherical_frame)))
        = Some (B True)
   \<and> the_material (snd spherical_frame)
        = new_material\<lparr>reflectionTexture := Some spherical_texture\<rparr>
   \<and> drawWrapper_effect (subMesh (snd spherical_frame)) = Some 0
   \<and> \<not> forceRebindOnNextCall (subMesh (snd spherical_frame))"
proof -
  obtain D1 where p: "planar_frame =
     (True,
      \<lparr>the_material = new_material\<lparr>reflectionTexture := Some planar_texture\<rparr>,
       subMesh = new_submesh\<lparr>materialDefines := Some D1, drawWrapper_effect := Some 0,
                   wasPreviouslyReady := True, wasPreviouslyUsingInstances := Some False\<rparr>,
       the_mesh = None,
       events = [ResetCachedMaterial,
                 CreateEffect (effectOptions idle_helpers
                    (new_material\<lparr>reflectionTexture := Some planar_texture\<rparr>)
                    (D1\<lparr>renderId := None\<rparr>))]
                 @ buildUniformLayout @ [CheckScenePerformancePriority]\<rparr>)"
    and g1: "getv ''REFLECTIONMAP_PLANAR'' D1 = B True"
            "getv ''REFLECTIONMAP_SPHERICAL'' D1 = B False"
    using planar_frame_result by blast
  let ?E1 = "[ResetCachedMaterial,
                 CreateEffect (effectOptions idle_helpers
                    (new_material\<lparr>reflectionTexture := Some planar_texture\<rparr>)
                    (D1\<lparr>renderId := None\<rparr>))]
                 @ buildUniformLayout @ [CheckScenePerformancePriority]"
  let ?w = "set_reflectionTexture (Some spherical_texture) (snd planar_frame)"
  have w: "?w = \<lparr>the_material = new_material\<lparr>reflectionTexture := Some spherical_texture\<rparr>,
       subMesh = new_submesh\<lparr>materialDefines := Some (markAsTexturesDirty D1),
                   drawWrapper_effect := Some 0,
                   wasPreviouslyReady := True, wasPreviouslyUsingInstances := Some False\<rparr>,
       the_mesh = None, events = ?E1\<rparr>"
    by (simp add: p set_reflectionTexture_def markAllSubMeshesAsTexturesDirty_def new_submesh_def)
  have e: "entry_defines ?w = markAsTexturesDirty D1"
    by (simp add: w entry_defines_def new_submesh_def)
  have nofast: "\<not> frozen_fast_path False ?w"
    by (simp add: w frozen_fast_path_def new_material_fields)
  have dirty: "areTexturesDirty (entry_defines ?w)" "isDirty (entry_defines ?w)"
    by (simp_all add: e markAsTexturesDirty_def)
  have sc: "texturesEnabled example_scene" "ReflectionTextureEnabled example_scene"
    by (simp_all add: example_scene_def)
  have m: "diffuseTexture (the_material ?w) = None"
      "reflectionTexture (the_material ?w) = Some spherical_texture"
      "\<not> reflectionFresnel (the_material ?w)"
    by (simp_all add: w new_material_fields)
  have t: "isReadyOrNotBlocking spherical_texture"
      "coordinatesMode spherical_texture = SPHERICAL_MODE"
    by (simp_all add: spherical_texture_def planar_texture_def)
  from idle_reflection_call [of False ?w example_scene spherical_texture,
      OF nofast dirty sc m(1,2) t(1) m(3)]
  obtain D2 where D: "isReadyForSubMesh idle_helpers example_scene False ?w =
     (True,
      ?w\<lparr>subMesh := (subMesh ?w)\<lparr>
          materialDefines := Some D2,
          drawWrapper_effect := Some 0,
          wasPreviouslyReady := True,
          wasPreviouslyUsingInstances := Some False\<rparr>,
        events := events ?w @ [ResetCachedMaterial,
                    CreateEffect (effectOptions idle_helpers (the_material ?w)
                                    (D2\<lparr>renderId := renderId (entry_defines ?w)\<rparr>))]
                   @ buildUniformLayout @ [CheckScenePerformancePriority]\<rparr>)"
    and G: "\<forall>k \<in> set reflection_submode_defines. k \<noteq> ''REFLECTIONMAP_SKYBOX'' \<longrightarrow>
           getv k D2 = (if k = reflection_mode_define (coordinatesMode spherical_texture) then B True
                       else getv k (entry_defines ?w))"
    by blast
  have g2: "getv ''REFLECTIONMAP_PLANAR'' D2 = B True"
    using G submodes_mem(1) by (simp add: t(2) e g1)
  have g3: "getv ''REFLECTIONMAP_SPHERICAL'' D2 = B True"
    using G submodes_mem(2) by (simp add: t(2))
  have s: "spherical_frame = isReadyForSubMesh idle_helpers example_scene False ?w"
    by (simp add: spherical_frame_def)
  have ev: "events ?w = ?E1" by (simp add: w)
  have mat: "the_material ?w = new_material\<lparr>reflectionTexture := Some spherical_texture\<rparr>"
    by (simp add: w)
  have c1: "fst planar_frame" by (simp add: p)
  have c2: "fst spherical_frame" by (simp add: s D)
  have c3: "map_option coordinatesMode (reflectionTexture (the_material (snd spherical_frame)))
        = Some SPHERICAL_MODE"
    by (simp add: s D mat t(2))
  have c4: "map (key_value ''REFLECTIONMAP_PLANAR'') (requested_keys (events (snd spherical_frame)))
        = [B True, B True]"
    by (simp add: s D ev g1 g2)
  have c5: "map (key_value ''REFLECTIONMAP_SPHERICAL'') (requested_keys (events (snd spherical_frame)))
        = [B False, B True]"
    by (simp add: s D ev g1 g3)
  have c6: "map_option (getv ''REFLECTIONMAP_PLANAR'') (materialDefines (subMesh (snd spherical_frame)))
        = Some (B True)"
    by (simp add: s D g2)
  have c7: "map_option (getv ''REFLECTIONMAP_SPHERICAL'') (materialDefines (subMesh (snd spherical_frame)))
        = Some (B True)"
    by (simp add: s D g3)
  have c8: "the_material (snd spherical_frame)
        = new_material\<lparr>reflectionTexture := Some spherical_texture\<rparr>"
    by (simp add: s D mat)
  have c9: "drawWrapper_effect (subMesh (snd spherical_frame)) = Some 0"
    by (simp add: s D)
  have nf: "\<not> forceRebindOnNextCall (subMesh ?w)"
    by (simp add: w new_submesh_def)
  have c10: "\<not> forceRebindOnNextCall (subMesh (snd spherical_frame))"
    by (simp add: s D nf)
  from c1 c2 c3 c4 c5 c6 c7 c8 c9 c10 show ?thesis by blast
qed


subsection \<open>The define set after a refresh that fails readiness\<close>

lemma reflection_defines_blocked:
  "blocking (enabled_texture (reflectionTexture m) (ReflectionTextureEnabled sc)) \<Longrightarrow>
   reflection_defines sc m d = (False, m, d)"
  by (cases "enabled_texture (reflectionTexture m) (ReflectionTextureEnabled sc)")
    (simp_all add: reflection_defines_def blocking_def)

lemma texturesPartition_not_ready:
  assumes "textures_not_ready sc m d"
    and d': "d' = (if textureLOD sc then setv ''TEXTURELODSUPPORT'' (B True) (d\<lparr>needUVs := False\<rparr>)
                  else d\<lparr>needUVs := False\<rparr>)"
  shows "snd (snd (texturesPartition h sc m d)) =
     (case enabled_texture (diffuseTexture m) (DiffuseTextureEnabled sc) of
        Some t \<Rightarrow>
          if \<not> isReadyOrNotBlocking t then d'
          else assigns [(''DIFFUSEHASALPHA'', B (hasAlpha t)),
                        (''GAMMADIFFUSE'', B (gammaSpace t)),
                        (''OPACITYFRESNEL'', B (opacityFresnel m))]
                 (PrepareDefinesForMergedUV h t ''DIFFUSE'' d')
      | None \<Rightarrow>
          assigns [(''DIFFUSE'', B False), (''DIFFUSEDIRECTUV'', N 0),
                   (''DIFFUSEHASALPHA'', B False), (''GAMMADIFFUSE'', B False),
                   (''OPACITYFRESNEL'', B False)] d')"
proof -
  from assms(1) have dirty: "areTexturesDirty d" and en: "texturesEnabled sc"
    and bl: "blocking (enabled_texture (diffuseTexture m) (DiffuseTextureEnabled sc)) \<or>
             blocking (enabled_texture (reflectionTexture m) (ReflectionTextureEnabled sc))"
    by (simp_all add: textures_not_ready_def)
  have tp: "texturesPartition h sc m d =
     (case diffuse_defines h sc m d' of
        (ok, d1) \<Rightarrow> if \<not> ok then (False, m, d1)
          else (case reflection_defines sc m d1 of
                  (ok, m2, d2) \<Rightarrow> if \<not> ok then (False, m2, d2)
                                  else (True, m2, textures_common m2 d2)))"
    using dirty en by (cases "textureLOD sc") (simp_all add: texturesPartition_def Let_def d' split: prod.splits)
  show ?thesis
  proof (cases "enabled_texture (diffuseTexture m) (DiffuseTextureEnabled sc)")
    case None
    with bl have r: "blocking (enabled_texture (reflectionTexture m) (ReflectionTextureEnabled sc))"
      by (simp add: blocking_def)
    show ?thesis
      unfolding tp by (simp add: None diffuse_defines_def reflection_defines_blocked [OF r])
  next
    case (Some t)
    show ?thesis
    proof (cases "isReadyOrNotBlocking t")
      case False
      then show ?thesis unfolding tp by (simp add: Some diffuse_defines_def)
    next
      case True
      with bl Some
      have r: "blocking (enabled_texture (reflectionTexture m) (ReflectionTextureEnabled sc))"
        by (simp add: blocking_def)
      show ?thesis
        unfolding tp by (simp add: Some True diffuse_defines_def reflection_defines_blocked [OF r])
    qed
  qed
qed

lemma prepareDefines_rest_not_ready:
  assumes "image_processing_not_ready h (the_material w) d"
  shows "prepareDefines_rest h sc u d w =
     (False, lightsPartition (the_material w) d,
      store_defines (lightsPartition (the_material w) d) w)"
proof -
  have "imageProcessingPartition h (the_material w) (lightsPartition (the_material w) d)
        = (False, lightsPartition (the_material w) d)"
    using assms
    by (auto simp: imageProcessingPartition_def image_processing_not_ready_def lightsPartition_def
        split: jsref.splits)
  then show ?thesis
    by (simp add: prepareDefines_rest_def Let_def)
qed

lemma getv_lightsPartition_other:
  "k \<noteq> ''USEHIGHLIGHTANDSHADOWCOLORS'' \<Longrightarrow> k \<noteq> ''BACKMAT_SHADOWONLY'' \<Longrightarrow>
   getv k (lightsPartition m d) = getv k d"
  by (simp add: lightsPartition_def)

lemma texturesPartition_common:
  assumes "areTexturesDirty d" and "fst (texturesPartition h sc m d)"
  shows "getv ''PREMULTIPLYALPHA'' (snd (snd (texturesPartition h sc m d))) =
           B (alphaMode m = ALPHA_PREMULTIPLIED \<or> alphaMode m = ALPHA_PREMULTIPLIED_PORTERDUFF)"
    "getv ''USERGBCOLOR'' (snd (snd (texturesPartition h sc m d))) = B (useRGBColor m)"
    "getv ''NOISE'' (snd (snd (texturesPartition h sc m d))) = B (enableNoise m)"
proof -
  obtain ok m' d' where tp: "texturesPartition h sc m d = (ok, m', d')"
    by (cases "texturesPartition h sc m d") auto
  from texturesPartition_material [OF tp]
  have m': "m' = m\<lparr>reflectionControls := reflectionControls m'\<rparr>" .
  have f: "alphaMode m' = alphaMode m" "useRGBColor m' = useRGBColor m"
    "enableNoise m' = enableNoise m"
    by (rule ssubst [OF m'], simp)+
  from tp assms obtain d2 where "d' = textures_common m' d2"
    by (auto simp: texturesPartition_def Let_def split: if_splits prod.splits)
  then show
    "getv ''PREMULTIPLYALPHA'' (snd (snd (texturesPartition h sc m d))) =
           B (alphaMode m = ALPHA_PREMULTIPLIED \<or> alphaMode m = ALPHA_PREMULTIPLIED_PORTERDUFF)"
    "getv ''USERGBCOLOR'' (snd (snd (texturesPartition h sc m d))) = B (useRGBColor m)"
    "getv ''NOISE'' (snd (snd (texturesPartition h sc m d))) = B (enableNoise m)"
    by (simp_all add: tp textures_common_def f)
qed

lemma loading_world_eq:
  "loading_world =
     new_world\<lparr>the_material := new_material\<lparr>reflectionTexture := Some loading_texture\<rparr>\<rparr>"
  by (simp add: loading_world_def set_reflectionTexture_def markAllSubMeshesAsTexturesDirty_def
      new_world_def new_submesh_def)

lemma loading_world_facts:
  "\<not> frozen_fast_path False loading_world"
  "\<not> push_isReadyForSubMesh idle_helpers
      (subMesh (store_defines (entry_defines loading_world) loading_world))"
  "entry_defines loading_world = new_BackgroundMaterialDefines"
  "events loading_world = []"
  "materialDefines (subMesh loading_world) = None"
  "diffuseTexture (the_material loading_world) = None"
  "reflectionTexture (the_material loading_world) = Some loading_texture"
  by (simp_all add: loading_world_eq frozen_fast_path_def new_world_def new_submesh_def
      idle_helpers_def entry_defines_def new_material_eq field_initialisers_def base_material_def)

lemma loading_not_ready:
  "textures_not_ready example_scene (the_material loading_world)
     (lights_and_multiview idle_helpers (the_material loading_world)
        (entry_defines loading_world))"
  by (simp add: textures_not_ready_def loading_world_facts lights_and_multiview_def
      idle_helpers_def blocking_def enabled_texture_def loading_texture_def example_scene_def)

lemma loading_refresh_fails: "refresh_fails idle_helpers example_scene loading_world"
  using loading_not_ready by (simp add: refresh_fails_def Let_def)

section \<open>Results: fovMultiplier and needAlphaBlending\<close>

lemma Math_clamp_Fin:
  "Math_max (Fin 0) (Math_min (Fin 2) (Fin x)) = Fin (max 0 (min 2 x))"
  by (auto simp: Math_max_def Math_min_def max_def min_def)

lemma set_fovMultiplier_cases:
  "fovMultiplier (set_fovMultiplier v m) =
     (case v of NaN \<Rightarrow> Fin 1 | NegInf \<Rightarrow> Fin 0 | PosInf \<Rightarrow> Fin 2 | Fin x \<Rightarrow> Fin (max 0 (min 2 x)))"
  by (cases v) (auto simp: fovMultiplier_def set_fovMultiplier_def isNaN_def
      Math_max_def Math_min_def Let_def max_def min_def)

lemma set_fovMultiplier_in_range: "in_fov_range (fovMultiplier (set_fovMultiplier v m))"
  by (cases v) (simp_all add: set_fovMultiplier_cases in_fov_range_def)

lemma fold_set_fovMultiplier_in_range:
  "in_fov_range (fovMultiplier m) \<Longrightarrow>
   in_fov_range (fovMultiplier (fold set_fovMultiplier vs m))"
  by (induction vs arbitrary: m) (simp_all add: set_fovMultiplier_in_range)

text \<open>
  C9. Assigning \<open>v\<close> to \<^verbatim>\<open>fovMultiplier\<close> stores 1.0 when \<open>v\<close> is NaN and otherwise
  \<open>v\<close> clamped to [0.0, 2.0] (an infinity goes to the nearer bound). The getter of a
  material just constructed returns 1.0, and after any sequence of assignments it returns
  a finite value in [0.0, 2.0], never NaN.
\<close>

theorem fovMultiplier_corrects_invalid_input:
  "(isNaN v \<longrightarrow> fovMultiplier (set_fovMultiplier v m) = Fin 1)
   \<and> (v = Fin x \<longrightarrow> fovMultiplier (set_fovMultiplier v m) = Fin (max 0 (min 2 x)))
   \<and> (v = PosInf \<longrightarrow> fovMultiplier (set_fovMultiplier v m) = Fin 2)
   \<and> (v = NegInf \<longrightarrow> fovMultiplier (set_fovMultiplier v m) = Fin 0)
   \<and> in_fov_range (fovMultiplier (set_fovMultiplier v m))
   \<and> fovMultiplier (set_fovMultiplier v m) \<noteq> NaN
   \<and> fovMultiplier (field_initialisers base) = Fin 1
   \<and> in_fov_range (fovMultiplier (fold set_fovMultiplier vs (field_initialisers base)))
   \<and> fovMultiplier (fold set_fovMultiplier vs (field_initialisers base)) \<noteq> NaN"
proof -
  have init: "fovMultiplier (field_initialisers base) = Fin 1"
    by (simp add: fovMultiplier_def field_initialisers_def)
  then have "in_fov_range (fovMultiplier (field_initialisers base))"
    by (simp add: in_fov_range_def)
  then have seq: "in_fov_range (fovMultiplier (fold set_fovMultiplier vs (field_initialisers base)))"
    by (rule fold_set_fovMultiplier_in_range)
  have one: "in_fov_range (fovMultiplier (set_fovMultiplier v m))"
    by (rule set_fovMultiplier_in_range)
  have nn: "\<And>r. in_fov_range r \<Longrightarrow> r \<noteq> NaN"
    by (auto simp: in_fov_range_def)
  show ?thesis
    using init seq one nn [OF seq] nn [OF one]
    by (simp add: set_fovMultiplier_cases isNaN_def)
qed

theorem fovMultiplier_corrects_invalid_input_witness:
  "isNaN NaN \<and> fovMultiplier (set_fovMultiplier NaN (new_material)) = Fin 1
   \<and> fovMultiplier (set_fovMultiplier (Fin 5) (new_material)) = Fin 2
   \<and> fovMultiplier (set_fovMultiplier (Fin (-3)) (new_material)) = Fin 0
   \<and> fovMultiplier (set_fovMultiplier (Fin (3 / 2)) (new_material)) = Fin (3 / 2)
   \<and> fovMultiplier (set_fovMultiplier PosInf (new_material)) = Fin 2
   \<and> fovMultiplier (set_fovMultiplier NegInf (new_material)) = Fin 0"
  using fovMultiplier_corrects_invalid_input [of NaN "new_material" 0 base_material "[]"]
    fovMultiplier_corrects_invalid_input [of "Fin 5" "new_material" 5 base_material "[]"]
    fovMultiplier_corrects_invalid_input [of "Fin (-3)" "new_material" "-3" base_material "[]"]
    fovMultiplier_corrects_invalid_input [of "Fin (3 / 2)" "new_material" "3 / 2" base_material "[]"]
    fovMultiplier_corrects_invalid_input [of PosInf "new_material" 0 base_material "[]"]
    fovMultiplier_corrects_invalid_input [of NegInf "new_material" 0 base_material "[]"]
  by (simp add: isNaN_def new_material_eq)

text \<open>
  C10. \<^verbatim>\<open>needAlphaBlending\<close> is true exactly when alpha is below 1, or a diffuse texture
  is set and has alpha, or \<^verbatim>\<open>shadowOnly\<close> is set; a fully opaque material with
  \<^verbatim>\<open>shadowOnly\<close> needs alpha blending.
\<close>

theorem needAlphaBlending_iff:
  "(needAlphaBlending m \<longleftrightarrow>
      js_lt (alpha m) (Fin 1) \<or> (\<exists>t. diffuseTexture m = Some t \<and> hasAlpha t) \<or> shadowOnly m)
   \<and> (alpha m = Fin 1 \<and> shadowOnly m \<longrightarrow> needAlphaBlending m)"
  by (auto simp: needAlphaBlending_def split: option.splits)


theorem needAlphaBlending_iff_witness:
  "alpha (new_material\<lparr>alpha := Fin 1, shadowOnly := True\<rparr>) = Fin 1
   \<and> shadowOnly (new_material\<lparr>alpha := Fin 1, shadowOnly := True\<rparr>)
   \<and> needAlphaBlending (new_material\<lparr>alpha := Fin 1, shadowOnly := True\<rparr>)
   \<and> \<not> needAlphaBlending (new_material\<lparr>alpha := Fin 1\<rparr>)"
  using needAlphaBlending_iff [of "new_material\<lparr>alpha := Fin 1, shadowOnly := True\<rparr>"]
    needAlphaBlending_iff [of "new_material\<lparr>alpha := Fin 1\<rparr>"]
  by (simp add: new_material_eq field_initialisers_def)

section \<open>Results: isReadyForSubMesh\<close>

text \<open>
  C3. If the material is frozen, the draw wrapper of the submesh holds an effect, the
  submesh was previously ready and the previous call used the same \<^verbatim>\<open>useInstances\<close>,
  then \<^verbatim>\<open>isReadyForSubMesh\<close> returns true and leaves the world as it is: no define is
  written, no event (in particular no \<^verbatim>\<open>createEffect\<close>) is issued.
\<close>

theorem frozen_fast_path_returns_true:
  assumes "isFrozen (the_material w)"
    and "drawWrapper_effect (subMesh w) = Some effect"
    and "wasPreviouslyReady (subMesh w)"
    and "wasPreviouslyUsingInstances (subMesh w) = Some useInstances"
  shows "isReadyForSubMesh h sc useInstances w = (True, w)"
  using assms by (simp add: isReadyForSubMesh_def frozen_fast_path_def)

theorem frozen_fast_path_returns_true_witness:
  "isFrozen (the_material frozen_ready_world)
   \<and> drawWrapper_effect (subMesh frozen_ready_world) = Some 0
   \<and> wasPreviouslyReady (subMesh frozen_ready_world)
   \<and> wasPreviouslyUsingInstances (subMesh frozen_ready_world) = Some False
   \<and> isReadyForSubMesh idle_helpers example_scene False frozen_ready_world
       = (True, frozen_ready_world)"
proof -
  have a: "isFrozen (the_material frozen_ready_world)"
    by (simp add: frozen_ready_world_def)
  have b: "drawWrapper_effect (subMesh frozen_ready_world) = Some 0"
    by (simp add: frozen_ready_world_def new_submesh_def)
  have c: "wasPreviouslyReady (subMesh frozen_ready_world)"
    by (simp add: frozen_ready_world_def new_submesh_def)
  have d: "wasPreviouslyUsingInstances (subMesh frozen_ready_world) = Some False"
    by (simp add: frozen_ready_world_def new_submesh_def)
  from frozen_fast_path_returns_true [OF a b c d] a b c d show ?thesis by simp
qed

text \<open>
  C7. Take a call of \<^verbatim>\<open>isReadyForSubMesh\<close> that is not answered by the frozen fast path
  nor by \<^verbatim>\<open>_isReadyForSubMesh\<close>, passes the textures block and finds the lights partition
  dirty, with helpers that do not write \<^verbatim>\<open>USEHIGHLIGHTANDSHADOWCOLORS\<close>. Whatever it
  returns, the define set it leaves has \<^verbatim>\<open>USEHIGHLIGHTANDSHADOWCOLORS\<close> false when
  \<^verbatim>\<open>primaryColorShadowLevel\<close> and \<^verbatim>\<open>primaryColorHighlightLevel\<close> are both 0, and true
  when either is nonzero and \<^verbatim>\<open>useRGBColor\<close> is false.
\<close>

theorem lights_partition_sets_highlight_define:
  assumes nofast: "\<not> frozen_fast_path useInstances w"
    and nopush: "\<not> push_isReadyForSubMesh h (subMesh (store_defines (entry_defines w) w))"
    and tex: "prepareDefines_textures h sc (entry_defines w) (store_defines (entry_defines w) w)
                = (True, d1, w1)"
    and dirty: "areLightsDirty d1"
    and keep: "frame_helpers_keep h ''USEHIGHLIGHTANDSHADOWCOLORS''"
    and call: "isReadyForSubMesh h sc useInstances w = (r, w')"
  shows "\<exists>d'. materialDefines (subMesh w') = Some d' \<and>
           (primaryColorShadowLevel (the_material w) = Fin 0 \<and>
            primaryColorHighlightLevel (the_material w) = Fin 0
              \<longrightarrow> getv ''USEHIGHLIGHTANDSHADOWCOLORS'' d' = B False) \<and>
           ((js_strict_ne (primaryColorShadowLevel (the_material w)) (Fin 0) \<or>
             js_strict_ne (primaryColorHighlightLevel (the_material w)) (Fin 0)) \<and>
            \<not> useRGBColor (the_material w)
              \<longrightarrow> getv ''USEHIGHLIGHTANDSHADOWCOLORS'' d' = B True)"
proof -
  let ?K = "''USEHIGHLIGHTANDSHADOWCOLORS''"
  let ?m = "the_material w"
  obtain ok d2 w2 where rest: "prepareDefines_rest h sc useInstances d1 w1 = (ok, d2, w2)"
    by (cases "prepareDefines_rest h sc useInstances d1 w1") auto
  have m1: "the_material w1 = ?m\<lparr>reflectionControls := reflectionControls (the_material w1)\<rparr>"
    using prepareDefines_textures_material [OF tex] by simp
  have "getv ?K d2 = getv ?K (lightsPartition (the_material w1) d1)"
    using keep _ _ rest by (rule prepareDefines_rest_keep) simp_all
  also have "\<dots> = B (\<not> useRGBColor (the_material w1) \<and>
        (js_strict_ne (primaryColorShadowLevel (the_material w1)) (Fin 0) \<or>
         js_strict_ne (primaryColorHighlightLevel (the_material w1)) (Fin 0)))"
    using dirty by (rule lightsPartition_highlight)
  also have "\<dots> = B (\<not> useRGBColor ?m \<and>
        (js_strict_ne (primaryColorShadowLevel ?m) (Fin 0) \<or>
         js_strict_ne (primaryColorHighlightLevel ?m) (Fin 0)))"
    by (subst (1 2 3) m1) simp
  finally have val: "getv ?K d2 = B (\<not> useRGBColor ?m \<and>
        (js_strict_ne (primaryColorShadowLevel ?m) (Fin 0) \<or>
         js_strict_ne (primaryColorHighlightLevel ?m) (Fin 0)))" .
  have st2: "materialDefines (subMesh w2) = Some d2"
    using rest by (rule prepareDefines_rest_stored)
  have "\<exists>d'. materialDefines (subMesh w') = Some d' \<and> vals d' = vals d2"
  proof (cases ok)
    case False
    with call nofast nopush tex rest have "w' = w2"
      by (simp add: isReadyForSubMesh_def prepareDefines_def Let_def)
    with st2 show ?thesis by simp
  next
    case True
    obtain d3 w3 where ge: "getEffect h d2 w2 = (d3, w3)"
      by (cases "getEffect h d2 w2") auto
    from True call nofast nopush tex rest ge have fin: "finish h sc useInstances d3 w3 = (r, w')"
      by (simp add: isReadyForSubMesh_def prepareDefines_def Let_def)
    from getEffect_stored [OF st2 ge] have "materialDefines (subMesh w3) = Some d3" .
    from finish_stored [OF this fin] getEffect_vals [OF ge] show ?thesis by auto
  qed
  then obtain d' where d': "materialDefines (subMesh w') = Some d'" "vals d' = vals d2"
    by blast
  then have "getv ?K d' = getv ?K d2" by (simp add: getv_def)
  with val d'(1) show ?thesis
    by (auto simp: js_strict_ne_def)
qed


theorem lights_partition_sets_highlight_define_witness:
  "\<exists>d'. materialDefines (subMesh (snd (isReadyForSubMesh idle_helpers example_scene False
              highlight_world))) = Some d' \<and>
        getv ''USEHIGHLIGHTANDSHADOWCOLORS'' d' = B True"
proof -
  let ?w = highlight_world
  let ?h = idle_helpers
  let ?sc = example_scene
  have nodef: "materialDefines (subMesh ?w) = None"
    by (simp add: highlight_world_def new_world_def new_submesh_def)
  have nofast: "\<not> frozen_fast_path False ?w"
    by (simp add: frozen_fast_path_def highlight_world_def new_world_def new_submesh_def)
  have nopush: "\<not> push_isReadyForSubMesh ?h (subMesh (store_defines (entry_defines ?w) ?w))"
    by (simp add: idle_helpers_def)
  obtain ok d1 w1 where tex:
    "prepareDefines_textures ?h ?sc (entry_defines ?w) (store_defines (entry_defines ?w) ?w)
       = (ok, d1, w1)"
    by (cases "prepareDefines_textures ?h ?sc (entry_defines ?w)
                 (store_defines (entry_defines ?w) ?w)") auto
  have mat: "the_material ?w =
      new_material\<lparr>useRGBColor := False, primaryColorShadowLevel := Fin (1 / 2)\<rparr>"
    by (simp add: highlight_world_def new_world_def)
  have notex: "diffuseTexture (the_material ?w) = None" "reflectionTexture (the_material ?w) = None"
    by (simp_all add: mat new_material_eq field_initialisers_def)
  have "ok \<and> areLightsDirty d1"
    using tex entry_defines_flags [OF nodef] notex
    by (auto simp: prepareDefines_textures_def lights_and_multiview_def idle_helpers_def
        texturesPartition_def diffuse_defines_def reflection_defines_def enabled_texture_def
        textures_common_def Let_def split: if_splits)
  then have tex': "prepareDefines_textures ?h ?sc (entry_defines ?w)
      (store_defines (entry_defines ?w) ?w) = (True, d1, w1)" and dirty: "areLightsDirty d1"
    using tex by simp_all
  have lv: "js_strict_ne (primaryColorShadowLevel (the_material ?w)) (Fin 0)"
      "\<not> useRGBColor (the_material ?w)"
    by (simp_all add: mat js_strict_ne_def)
  obtain r w' where call: "isReadyForSubMesh ?h ?sc False ?w = (r, w')"
    by (cases "isReadyForSubMesh ?h ?sc False ?w") auto
  from lights_partition_sets_highlight_define [OF nofast nopush tex' dirty idle_helpers_keep call] lv
  show ?thesis by (auto simp: call)
qed

text \<open>
  C2 (as amended). Take a call of \<^verbatim>\<open>isReadyForSubMesh\<close> that is not answered by the frozen
  fast path nor by \<^verbatim>\<open>_isReadyForSubMesh\<close>, in which the refresh of a dirty partition fails
  readiness: the diffuse or reflection texture in use reports not
  \<^verbatim>\<open>isReadyOrNotBlocking\<close>, or the image-processing configuration reports not
  \<^verbatim>\<open>isReady\<close>. The call returns false, issues no event (no key is serialized, no
  \<^verbatim>\<open>createEffect\<close> is requested) and leaves the effect of the submesh and its
  previously-ready flags as they were. The defines written before the failing test keep
  their new values; the define set of the submesh after the call is

    \<^item> when the diffuse texture fails: the set the textures block started on, with
      \<^verbatim>\<open>_needUVs\<close> false and \<^verbatim>\<open>TEXTURELODSUPPORT\<close> true if the engine supports texture
      LOD;
    \<^item> when the reflection texture fails: that set after the diffuse block, that is with
      the three diffuse defines of a loaded diffuse texture written after
      \<^verbatim>\<open>PrepareDefinesForMergedUV\<close>, or with the five diffuse defines reset if there is
      none;
    \<^item> when the image-processing configuration fails: the set the textures partition
      produced (with \<^verbatim>\<open>PREMULTIPLYALPHA\<close>, \<^verbatim>\<open>USERGBCOLOR\<close> and \<^verbatim>\<open>NOISE\<close> taken from the
      material if that partition was dirty), with the two defines of the lights partition
      written if that partition was dirty.
\<close>

theorem not_ready_returns_false_without_compiling:
  assumes nofast: "\<not> frozen_fast_path useInstances w"
    and nopush: "\<not> push_isReadyForSubMesh h (subMesh (store_defines (entry_defines w) w))"
    and fails: "refresh_fails h sc w"
  shows "fst (isReadyForSubMesh h sc useInstances w) = False
     \<and> events (snd (isReadyForSubMesh h sc useInstances w)) = events w
     \<and> drawWrapper_effect (subMesh (snd (isReadyForSubMesh h sc useInstances w)))
         = drawWrapper_effect (subMesh w)
     \<and> wasPreviouslyReady (subMesh (snd (isReadyForSubMesh h sc useInstances w)))
         = wasPreviouslyReady (subMesh w)
     \<and> wasPreviouslyUsingInstances (subMesh (snd (isReadyForSubMesh h sc useInstances w)))
         = wasPreviouslyUsingInstances (subMesh w)
     \<and> (let m = the_material w;
             d0 = lights_and_multiview h m (entry_defines w);
             d0' = (if textureLOD sc
                    then setv ''TEXTURELODSUPPORT'' (B True) (d0\<lparr>needUVs := False\<rparr>)
                    else d0\<lparr>needUVs := False\<rparr>);
             d1 = snd (snd (texturesPartition h sc m d0));
             D = materialDefines (subMesh (snd (isReadyForSubMesh h sc useInstances w)))
         in (textures_not_ready sc m d0 \<longrightarrow>
               (case enabled_texture (diffuseTexture m) (DiffuseTextureEnabled sc) of
                  Some t \<Rightarrow>
                    if \<not> isReadyOrNotBlocking t then D = Some d0'
                    else D = Some (assigns [(''DIFFUSEHASALPHA'', B (hasAlpha t)),
                                            (''GAMMADIFFUSE'', B (gammaSpace t)),
                                            (''OPACITYFRESNEL'', B (opacityFresnel m))]
                                     (PrepareDefinesForMergedUV h t ''DIFFUSE'' d0'))
                | None \<Rightarrow>
                    D = Some (assigns [(''DIFFUSE'', B False), (''DIFFUSEDIRECTUV'', N 0),
                                       (''DIFFUSEHASALPHA'', B False), (''GAMMADIFFUSE'', B False),
                                       (''OPACITYFRESNEL'', B False)] d0')))
          \<and> (\<not> textures_not_ready sc m d0 \<longrightarrow>
               D = Some (if areLightsDirty d1
                         then assigns [(''USEHIGHLIGHTANDSHADOWCOLORS'',
                                          B (\<not> useRGBColor m \<and>
                                             (js_strict_ne (primaryColorShadowLevel m) (Fin 0) \<or>
                                              js_strict_ne (primaryColorHighlightLevel m) (Fin 0)))),
                                       (''BACKMAT_SHADOWONLY'', B (shadowOnly m))] d1
                         else d1)
               \<and> (areTexturesDirty d0 \<longrightarrow>
                    map_option (getv ''PREMULTIPLYALPHA'') D =
                      Some (B (alphaMode m = ALPHA_PREMULTIPLIED \<or>
                               alphaMode m = ALPHA_PREMULTIPLIED_PORTERDUFF))
                    \<and> map_option (getv ''USERGBCOLOR'') D = Some (B (useRGBColor m))
                    \<and> map_option (getv ''NOISE'') D = Some (B (enableNoise m)))))"
proof -
  let ?w0 = "store_defines (entry_defines w) w"
  let ?m = "the_material w"
  let ?d = "lights_and_multiview h ?m (entry_defines w)"
  let ?r = "isReadyForSubMesh h sc useInstances w"
  obtain ok d1 w1 where tex: "prepareDefines_textures h sc (entry_defines w) ?w0 = (ok, d1, w1)"
    by (cases "prepareDefines_textures h sc (entry_defines w) ?w0") auto
  have ok_eq: "ok = (\<not> textures_not_ready sc ?m ?d)"
    using tex texturesPartition_fails [of h sc ?m ?d]
    by (auto simp: prepareDefines_textures_def Let_def split: prod.splits)
  have d1_eq: "d1 = snd (snd (texturesPartition h sc ?m ?d))"
    using tex by (auto simp: prepareDefines_textures_def Let_def split: prod.splits)
  note fr1 = prepareDefines_textures_frame [OF tex]
  have m1: "the_material w1 = ?m\<lparr>reflectionControls := reflectionControls (the_material w1)\<rparr>"
    using prepareDefines_textures_material [OF tex] by simp
  have ipc: "imageProcessingConfiguration (the_material w1) = imageProcessingConfiguration ?m"
    by (rule ssubst [OF m1]) simp
  have lp: "lightsPartition (the_material w1) d1 = lightsPartition ?m d1"
    by (rule ssubst [OF m1]) (simp add: lightsPartition_def)
  show ?thesis
  proof (cases ok)
    case False
    with tex nofast nopush have call: "?r = (False, w1)"
      by (simp add: isReadyForSubMesh_def prepareDefines_def Let_def)
    from False ok_eq have nr: "textures_not_ready sc ?m ?d" by simp
    have D: "materialDefines (subMesh (snd ?r)) = Some d1"
      by (simp add: call fr1(6))
    have frame: "fst ?r = False" "events (snd ?r) = events w"
      "drawWrapper_effect (subMesh (snd ?r)) = drawWrapper_effect (subMesh w)"
      "wasPreviouslyReady (subMesh (snd ?r)) = wasPreviouslyReady (subMesh w)"
      "wasPreviouslyUsingInstances (subMesh (snd ?r)) = wasPreviouslyUsingInstances (subMesh w)"
      using fr1 by (simp_all add: call)
    have written:
      "(case enabled_texture (diffuseTexture ?m) (DiffuseTextureEnabled sc) of
          Some t \<Rightarrow>
            if \<not> isReadyOrNotBlocking t
            then materialDefines (subMesh (snd ?r)) =
                   Some (if textureLOD sc
                         then setv ''TEXTURELODSUPPORT'' (B True) (?d\<lparr>needUVs := False\<rparr>)
                         else ?d\<lparr>needUVs := False\<rparr>)
            else materialDefines (subMesh (snd ?r)) =
                   Some (assigns [(''DIFFUSEHASALPHA'', B (hasAlpha t)),
                                  (''GAMMADIFFUSE'', B (gammaSpace t)),
                                  (''OPACITYFRESNEL'', B (opacityFresnel ?m))]
                           (PrepareDefinesForMergedUV h t ''DIFFUSE''
                              (if textureLOD sc
                               then setv ''TEXTURELODSUPPORT'' (B True) (?d\<lparr>needUVs := False\<rparr>)
                               else ?d\<lparr>needUVs := False\<rparr>)))
        | None \<Rightarrow>
            materialDefines (subMesh (snd ?r)) =
              Some (assigns [(''DIFFUSE'', B False), (''DIFFUSEDIRECTUV'', N 0),
                             (''DIFFUSEHASALPHA'', B False), (''GAMMADIFFUSE'', B False),
                             (''OPACITYFRESNEL'', B False)]
                      (if textureLOD sc
                       then setv ''TEXTURELODSUPPORT'' (B True) (?d\<lparr>needUVs := False\<rparr>)
                       else ?d\<lparr>needUVs := False\<rparr>)))"
      unfolding D d1_eq texturesPartition_not_ready [OF nr refl, of h]
      by (simp split: option.splits)
    from frame written nr show ?thesis
      unfolding Let_def by blast
  next
    case True
    with ok_eq have ready: "\<not> textures_not_ready sc ?m ?d" by simp
    with fails d1_eq have "image_processing_not_ready h ?m d1"
      by (simp add: refresh_fails_def Let_def)
    then have "image_processing_not_ready h (the_material w1) d1"
      by (simp add: image_processing_not_ready_def ipc)
    from prepareDefines_rest_not_ready [OF this, of sc useInstances] True tex nofast nopush
    have call: "?r = (False, store_defines (lightsPartition ?m d1) w1)"
      by (simp add: isReadyForSubMesh_def prepareDefines_def Let_def lp)
    have frame: "fst ?r = False" "events (snd ?r) = events w"
      "drawWrapper_effect (subMesh (snd ?r)) = drawWrapper_effect (subMesh w)"
      "wasPreviouslyReady (subMesh (snd ?r)) = wasPreviouslyReady (subMesh w)"
      "wasPreviouslyUsingInstances (subMesh (snd ?r)) = wasPreviouslyUsingInstances (subMesh w)"
      using fr1 by (simp_all add: call)
    have D: "materialDefines (subMesh (snd ?r)) = Some (lightsPartition ?m d1)"
      by (simp add: call)
    have lights: "materialDefines (subMesh (snd ?r)) =
        Some (if areLightsDirty (snd (snd (texturesPartition h sc ?m ?d)))
              then assigns [(''USEHIGHLIGHTANDSHADOWCOLORS'',
                               B (\<not> useRGBColor ?m \<and>
                                  (js_strict_ne (primaryColorShadowLevel ?m) (Fin 0) \<or>
                                   js_strict_ne (primaryColorHighlightLevel ?m) (Fin 0)))),
                            (''BACKMAT_SHADOWONLY'', B (shadowOnly ?m))]
                     (snd (snd (texturesPartition h sc ?m ?d)))
              else snd (snd (texturesPartition h sc ?m ?d)))"
      unfolding D d1_eq by (simp add: lightsPartition_def)
    have common: "areTexturesDirty ?d \<Longrightarrow>
        map_option (getv ''PREMULTIPLYALPHA'') (materialDefines (subMesh (snd ?r))) =
          Some (B (alphaMode ?m = ALPHA_PREMULTIPLIED \<or>
                   alphaMode ?m = ALPHA_PREMULTIPLIED_PORTERDUFF))
        \<and> map_option (getv ''USERGBCOLOR'') (materialDefines (subMesh (snd ?r)))
            = Some (B (useRGBColor ?m))
        \<and> map_option (getv ''NOISE'') (materialDefines (subMesh (snd ?r)))
            = Some (B (enableNoise ?m))"
    proof -
      assume dirty: "areTexturesDirty ?d"
      have ok': "fst (texturesPartition h sc ?m ?d)"
        using ready by (simp add: texturesPartition_fails)
      show ?thesis
        unfolding D d1_eq
        by (simp add: getv_lightsPartition_other texturesPartition_common [OF dirty ok'])
    qed
    from frame lights common ready show ?thesis
      unfolding Let_def by blast
  qed
qed

theorem not_ready_returns_false_without_compiling_witness:
  "fst (isReadyForSubMesh loading_helpers example_scene False relit_world) = False
   \<and> events (snd (isReadyForSubMesh loading_helpers example_scene False relit_world))
       = events relit_world
   \<and> drawWrapper_effect (subMesh (snd
         (isReadyForSubMesh loading_helpers example_scene False relit_world))) = Some 0
   \<and> wasPreviouslyReady (subMesh (snd
         (isReadyForSubMesh loading_helpers example_scene False relit_world)))
   \<and> map_option (getv ''USEHIGHLIGHTANDSHADOWCOLORS'')
        (materialDefines (subMesh (snd
           (isReadyForSubMesh loading_helpers example_scene False relit_world))))
       = Some (B True)
   \<and> fst (isReadyForSubMesh idle_helpers example_scene False loading_world) = False
   \<and> events (snd (isReadyForSubMesh idle_helpers example_scene False loading_world)) = []
   \<and> materialDefines (subMesh loading_world) = None
   \<and> map_option (getv ''TEXTURELODSUPPORT'')
        (materialDefines (subMesh (snd
           (isReadyForSubMesh idle_helpers example_scene False loading_world))))
       = Some (B True)
   \<and> map_option (getv ''DIFFUSE'')
        (materialDefines (subMesh (snd
           (isReadyForSubMesh idle_helpers example_scene False loading_world))))
       = Some (B False)"
proof -
  have nopush: "\<not> push_isReadyForSubMesh loading_helpers
      (subMesh (store_defines (entry_defines relit_world) relit_world))"
    by (simp add: loading_helpers_def idle_helpers_def)
  have d0: "lights_and_multiview loading_helpers (the_material relit_world)
              (entry_defines relit_world) = entry_defines relit_world\<lparr>needNormals := True\<rparr>"
    by (simp add: lights_and_multiview_def loading_helpers_def idle_helpers_def)
  have ready: "\<not> textures_not_ready example_scene (the_material relit_world)
      (entry_defines relit_world\<lparr>needNormals := True\<rparr>)"
    using relit_flags(1) by (simp add: textures_not_ready_def)
  have d1: "texturesPartition loading_helpers example_scene (the_material relit_world)
      (entry_defines relit_world\<lparr>needNormals := True\<rparr>)
      = (True, the_material relit_world, entry_defines relit_world\<lparr>needNormals := True\<rparr>)"
    using relit_flags(1) by (simp add: texturesPartition_def)
  have lod: "textureLOD example_scene" by (simp add: example_scene_def)
  from not_ready_returns_false_without_compiling
    [OF relit_world_facts(1) nopush relit_refresh_fails]
  have first: "fst (isReadyForSubMesh loading_helpers example_scene False relit_world) = False
   \<and> events (snd (isReadyForSubMesh loading_helpers example_scene False relit_world))
       = events relit_world
   \<and> drawWrapper_effect (subMesh (snd
         (isReadyForSubMesh loading_helpers example_scene False relit_world))) = Some 0
   \<and> wasPreviouslyReady (subMesh (snd
         (isReadyForSubMesh loading_helpers example_scene False relit_world)))
   \<and> map_option (getv ''USEHIGHLIGHTANDSHADOWCOLORS'')
        (materialDefines (subMesh (snd
           (isReadyForSubMesh loading_helpers example_scene False relit_world))))
       = Some (B True)"
    unfolding Let_def d0 d1
    using ready relit_flags'(1)
    by (simp add: relit_world_facts(2,3) relit_material new_material_eq js_strict_ne_def)
  from not_ready_returns_false_without_compiling
    [OF loading_world_facts(1,2) loading_refresh_fails]
  have second: "fst (isReadyForSubMesh idle_helpers example_scene False loading_world) = False
   \<and> events (snd (isReadyForSubMesh idle_helpers example_scene False loading_world)) = []
   \<and> map_option (getv ''TEXTURELODSUPPORT'')
        (materialDefines (subMesh (snd
           (isReadyForSubMesh idle_helpers example_scene False loading_world))))
       = Some (B True)
   \<and> map_option (getv ''DIFFUSE'')
        (materialDefines (subMesh (snd
           (isReadyForSubMesh idle_helpers example_scene False loading_world))))
       = Some (B False)"
    unfolding Let_def
    using loading_not_ready lod
    by (simp add: loading_world_facts(4,6) enabled_texture_def)
  from first second loading_world_facts(5) show ?thesis by simp
qed

text \<open>
  The define values are not left unchanged: with the lights and image-processing partitions
  dirty and a configuration that is not ready, the call returns false after the lights
  block has turned \<^verbatim>\<open>USEHIGHLIGHTANDSHADOWCOLORS\<close> from false to true.
\<close>

theorem not_ready_changes_define_counterexample:
  "fst (isReadyForSubMesh loading_helpers example_scene False relit_world) = False
   \<and> refresh_fails loading_helpers example_scene relit_world
   \<and> map_option (getv ''USEHIGHLIGHTANDSHADOWCOLORS'') (materialDefines (subMesh relit_world))
       = Some (B False)
   \<and> map_option (getv ''USEHIGHLIGHTANDSHADOWCOLORS'')
        (materialDefines (subMesh (snd
           (isReadyForSubMesh loading_helpers example_scene False relit_world))))
       = Some (B True)"
  by (simp add: relit_call relit_before relit_refresh_fails relit_after)

text \<open>
  C1 (a defect of the code). The claim asks that after the textures partition is recomputed
  no reflection-submode define set under a previous reflection texture stays true. The
  code does not do that while a reflection texture stays in use: the switch on the
  coordinates mode only sets the define of the current mode to true and resets none of
  the others (they are reset only in the branch without reflection texture). Here a
  material is given a planar reflection texture and its submesh is checked, then it is
  given a spherical one and the submesh is checked again. Both calls return true; the
  key of the second compilation has \<^verbatim>\<open>REFLECTIONMAP_PLANAR\<close> and
  \<^verbatim>\<open>REFLECTIONMAP_SPHERICAL\<close> both true.
\<close>

theorem stale_reflection_submode_reaches_key:
  "fst planar_frame \<and> fst spherical_frame
   \<and> map_option coordinatesMode (reflectionTexture (the_material (snd spherical_frame)))
        = Some SPHERICAL_MODE
   \<and> map (key_value ''REFLECTIONMAP_PLANAR'') (requested_keys (events (snd spherical_frame)))
        = [B True, B True]
   \<and> map (key_value ''REFLECTIONMAP_SPHERICAL'') (requested_keys (events (snd spherical_frame)))
        = [B False, B True]
   \<and> map_option (getv ''REFLECTIONMAP_PLANAR'') (materialDefines (subMesh (snd spherical_frame)))
        = Some (B True)
   \<and> map_option (getv ''REFLECTIONMAP_SPHERICAL'') (materialDefines (subMesh (snd spherical_frame)))
        = Some (B True)"
  using spherical_frame_world by blast

text \<open>
  C4 (as amended). The fallback list of the compilation request is what
  \<^verbatim>\<open>HandleFallbacksForShadows\<close> and \<^verbatim>\<open>PrepareAttributesForBones\<close> make of the entries
  the material adds itself: \<^verbatim>\<open>FOG\<close> at priority 0, \<^verbatim>\<open>POINTSIZE\<close> at priority 1 and
  \<^verbatim>\<open>MULTIVIEW\<close> at priority 0, each only if its define is set. By ascending priority
  number these are disabled in the order fog, multiview, point size. The request is the
  one \<^verbatim>\<open>createEffect\<close> receives when the define set is dirty.
\<close>

theorem fallbacks_by_rank:
  "effect_fallbacks (effectOptions h m d) =
     snd (PrepareAttributesForBones h d
            (base_attribs d,
             HandleFallbacksForShadows h d (maxSimultaneousLights m) (own_fallbacks d)))
   \<and> own_fallbacks d =
       filter (\<lambda>(rank, define). truthy (getv define d))
         [(0, ''FOG''), (1, ''POINTSIZE''), (0, ''MULTIVIEW'')]
   \<and> disable_order (own_fallbacks d) =
       filter (\<lambda>define. truthy (getv define d)) [''FOG'', ''MULTIVIEW'', ''POINTSIZE'']
   \<and> (isDirty d \<longrightarrow>
        events (snd (getEffect h d w)) =
          events w @ [ResetCachedMaterial,
                      CreateEffect (effectOptions h (the_material w) (markAsProcessed d))]
                   @ buildUniformLayout)"
proof (intro conjI impI)
  show "effect_fallbacks (effectOptions h m d) =
     snd (PrepareAttributesForBones h d
            (base_attribs d,
             HandleFallbacksForShadows h d (maxSimultaneousLights m) (own_fallbacks d)))"
    by (simp add: effect_fallbacks_effectOptions build_fallbacks_def)
  show "own_fallbacks d =
       filter (\<lambda>(rank, define). truthy (getv define d))
         [(0, ''FOG''), (1, ''POINTSIZE''), (0, ''MULTIVIEW'')]"
    by (simp add: own_fallbacks_cases)
  show "disable_order (own_fallbacks d) =
       filter (\<lambda>define. truthy (getv define d)) [''FOG'', ''MULTIVIEW'', ''POINTSIZE'']"
    by (simp add: own_fallbacks_cases disable_order_def)
  assume "isDirty d"
  then show "events (snd (getEffect h d w)) =
          events w @ [ResetCachedMaterial,
                      CreateEffect (effectOptions h (the_material w) (markAsProcessed d))]
                   @ buildUniformLayout"
    by (simp add: getEffect_def Let_def)
qed

theorem fallbacks_by_rank_witness:
  "isDirty foggy_defines
   \<and> effect_fallbacks (effectOptions idle_helpers new_material foggy_defines)
       = [(0, ''FOG''), (1, ''POINTSIZE''), (0, ''MULTIVIEW'')]
   \<and> disable_order (own_fallbacks foggy_defines) = [''FOG'', ''MULTIVIEW'', ''POINTSIZE'']
   \<and> events (snd (getEffect idle_helpers foggy_defines new_world)) =
        [ResetCachedMaterial,
         CreateEffect (effectOptions idle_helpers new_material (markAsProcessed foggy_defines))]
        @ buildUniformLayout"
  using fallbacks_by_rank [of idle_helpers new_material foggy_defines new_world]
  by (simp add: foggy_facts new_world_def disable_order_def)

text \<open>
  The order fog, point size, multiview of the claim fails: with the three defines set and
  no light, multiview (priority 0) comes before point size (priority 1).
\<close>

theorem point_size_after_multiview_counterexample:
  "disable_order (effect_fallbacks (effectOptions idle_helpers new_material foggy_defines))
     = [''FOG'', ''MULTIVIEW'', ''POINTSIZE'']
   \<and> disable_order (effect_fallbacks (effectOptions idle_helpers new_material foggy_defines))
     \<noteq> [''FOG'', ''POINTSIZE'', ''MULTIVIEW'']"
  by (simp add: effect_fallbacks_effectOptions build_fallbacks_def own_fallbacks_cases
      foggy_facts disable_order_def)



section \<open>Results: the image-processing observer\<close>

text \<open>
  C8. After the constructor and any sequence of \<^verbatim>\<open>_attachImageProcessingConfiguration\<close>
  calls, assignments to \<^verbatim>\<open>imageProcessingConfiguration\<close> and \<^verbatim>\<open>dispose\<close>, at most one
  observer of the material is registered, on at most one configuration; if there is one,
  it is the observer the material holds, on the configuration the material uses.
  Attaching the configuration already in use changes nothing; attaching another one
  leaves no observer on the previous configuration, and no configuration ever has two
  observers of the material, so none notifies it twice.
\<close>

theorem at_most_one_image_processing_observer:
  "at_most_one_observer
      (the_material (fst (fold (ipc_step sc) calls (constructed sc w))))
      (snd (fold (ipc_step sc) calls (constructed sc w)))
   \<and> (at_most_one_observer m os \<longrightarrow>
        attachImageProcessingConfiguration sc (imageProcessingConfiguration m) (m, os) = (m, os)
        \<and> (\<forall>c old. c \<noteq> imageProcessingConfiguration m
              \<and> imageProcessingConfiguration m = Ref old
              \<and> pick_configuration sc c \<noteq> Ref old
            \<longrightarrow> onUpdateParameters (snd (attachImageProcessingConfiguration sc c (m, os))) old = [])
        \<and> (\<forall>c k. length (onUpdateParameters
                      (snd (attachImageProcessingConfiguration sc c (m, os))) k) \<le> 1))"
proof (intro conjI impI allI)
  show "at_most_one_observer
      (the_material (fst (fold (ipc_step sc) calls (constructed sc w))))
      (snd (fold (ipc_step sc) calls (constructed sc w)))"
    using constructed_invariant by (rule fold_ipc_step_keeps_invariant)
next
  show "attachImageProcessingConfiguration sc (imageProcessingConfiguration m) (m, os) = (m, os)"
    by (simp add: attachImageProcessingConfiguration_def)
next
  fix c old
  assume inv: "at_most_one_observer m os"
    and h: "c \<noteq> imageProcessingConfiguration m \<and> imageProcessingConfiguration m = Ref old
              \<and> pick_configuration sc c \<noteq> Ref old"
  obtain m' os' where a: "attachImageProcessingConfiguration sc c (m, os) = (m', os')"
    by (cases "attachImageProcessingConfiguration sc c (m, os)")
  have cfg: "imageProcessingConfiguration m' = pick_configuration sc c"
    using a h
    by (auto simp: attachImageProcessingConfiguration_def Let_def attach_observer_def
        split: jsref.splits prod.splits)
  from attach_keeps_invariant [OF inv a] cfg h
  have "onUpdateParameters os' old = []"
    by (auto simp: at_most_one_observer_def)
  then show "onUpdateParameters (snd (attachImageProcessingConfiguration sc c (m, os))) old = []"
    by (simp add: a)
next
  fix c k
  assume inv: "at_most_one_observer m os"
  obtain m' os' where a: "attachImageProcessingConfiguration sc c (m, os) = (m', os')"
    by (cases "attachImageProcessingConfiguration sc c (m, os)")
  from attach_keeps_invariant [OF inv a]
  have "length (onUpdateParameters os' k) \<le> 1"
    by (auto simp: at_most_one_observer_def dest: spec [of _ k])
  then show "length (onUpdateParameters (snd (attachImageProcessingConfiguration sc c (m, os))) k) \<le> 1"
    by (simp add: a)
qed

theorem at_most_one_image_processing_observer_witness:
  "at_most_one_observer
      (the_material (fst (fold (ipc_step example_scene) attach_calls
          (constructed example_scene new_world))))
      (snd (fold (ipc_step example_scene) attach_calls (constructed example_scene new_world)))
   \<and> map (onUpdateParameters (snd (fold (ipc_step example_scene) attach_calls
          (constructed example_scene new_world)))) [0, 1, 2] = [[], [], [3]]
   \<and> imageProcessingObserver (the_material (fst (fold (ipc_step example_scene) attach_calls
          (constructed example_scene new_world)))) = Some 3
   \<and> at_most_one_observer (the_material (fst (constructed example_scene new_world)))
        (snd (constructed example_scene new_world))
   \<and> attachImageProcessingConfiguration example_scene (Ref 0)
        (the_material (fst (constructed example_scene new_world)),
         snd (constructed example_scene new_world))
       = (the_material (fst (constructed example_scene new_world)),
          snd (constructed example_scene new_world))
   \<and> onUpdateParameters (snd (attachImageProcessingConfiguration example_scene (Ref 1)
        (the_material (fst (constructed example_scene new_world)),
         snd (constructed example_scene new_world)))) 0 = []
   \<and> length (onUpdateParameters (snd (attachImageProcessingConfiguration example_scene (Ref 1)
        (the_material (fst (constructed example_scene new_world)),
         snd (constructed example_scene new_world)))) 1) \<le> 1"
proof -
  let ?m = "the_material (fst (constructed example_scene new_world))"
  let ?os = "snd (constructed example_scene new_world)"
  note t1 = at_most_one_image_processing_observer
    [of example_scene attach_calls new_world ?m ?os]
  note t0 = at_most_one_image_processing_observer
    [of example_scene "[]" new_world ?m ?os]
  have inv0: "at_most_one_observer ?m ?os" using t0 by simp
  have cfg: "imageProcessingConfiguration ?m = Ref 0"
    by (simp add: constructed_new_world)
  have pick: "pick_configuration example_scene (Ref 1) \<noteq> Ref 0"
    by (simp add: pick_configuration_def)
  from t1 inv0 have
    a: "attachImageProcessingConfiguration example_scene (imageProcessingConfiguration ?m)
          (?m, ?os) = (?m, ?os)"
    and b: "\<forall>c old. c \<noteq> imageProcessingConfiguration ?m
              \<and> imageProcessingConfiguration ?m = Ref old
              \<and> pick_configuration example_scene c \<noteq> Ref old
            \<longrightarrow> onUpdateParameters (snd (attachImageProcessingConfiguration example_scene c
                   (?m, ?os))) old = []"
    and c: "\<forall>c k. length (onUpdateParameters
                      (snd (attachImageProcessingConfiguration example_scene c (?m, ?os))) k) \<le> 1"
    by blast+
  from b [rule_format, of "Ref 1" 0] cfg pick
  have b': "onUpdateParameters (snd (attachImageProcessingConfiguration example_scene (Ref 1)
                   (?m, ?os))) 0 = []"
    by simp
  from t1 attach_calls_result(1,2) inv0 a [unfolded cfg] b' c [rule_format, of "Ref 1" 1]
  show ?thesis by blast
qed

section \<open>Results: bindForSubMesh\<close>




end
